theory Spec2Isabelle
  imports Complex_Main "HOL-Library.Sublist" "HOL-Library.List_Lexorder" "HOL-Library.Char_ord"
    "HOL-Library.Multiset" "HOL-Library.AList"
begin

section \<open>Python values\<close>

text \<open>
  The workers of \<^verbatim>\<open>api.py\<close> receive what \<^verbatim>\<open>resp.json()\<close> returns: an arbitrary
  JSON value, with no schema check. A dict is kept as the association list of its items in
  insertion order (keys distinct, as \<^verbatim>\<open>json.loads\<close> builds it). A \<^verbatim>\<open>str\<close> is a
  \<^typ>\<open>string\<close>, one \<^typ>\<open>char\<close> per code point.
\<close>

datatype json =
    JNull
  | JBool bool
  | JNum real
  | JStr string
  | JList "json list"
  | JObj "(string \<times> json) list"

text \<open>The exception classes that the code under study can meet.\<close>

datatype exn = KeyError | IndexError | TypeError | AttributeError | ValueError | RequestException

text \<open>Truth value of an object, as \<^verbatim>\<open>if x\<close>, \<^verbatim>\<open>x or y\<close> and \<^verbatim>\<open>not x\<close> test it.\<close>

fun truthy :: "json \<Rightarrow> bool" where
  "truthy JNull = False"
| "truthy (JBool b) = b"
| "truthy (JNum n) = (n \<noteq> 0)"
| "truthy (JStr s) = (s \<noteq> [])"
| "truthy (JList xs) = (xs \<noteq> [])"
| "truthy (JObj kvs) = (kvs \<noteq> [])"

text \<open>\<^verbatim>\<open>x or y\<close>: the first operand when it is true, else the second.\<close>

definition py_or :: "json \<Rightarrow> json \<Rightarrow> json" where
  "py_or x y = (if truthy x then x else y)"

text \<open>\<^verbatim>\<open>x[k]\<close> with a string key: only a dict accepts it.\<close>

fun subscript_key :: "json \<Rightarrow> string \<Rightarrow> exn + json" where
  "subscript_key (JObj kvs) k = (case map_of kvs k of None \<Rightarrow> Inl KeyError | Some v \<Rightarrow> Inr v)"
| "subscript_key _ k = Inl TypeError"

text \<open>\<^verbatim>\<open>x[0]\<close>: a dict with string keys has no key \<^verbatim>\<open>0\<close>.\<close>

fun subscript_0 :: "json \<Rightarrow> exn + json" where
  "subscript_0 (JList []) = Inl IndexError"
| "subscript_0 (JList (x # xs)) = Inr x"
| "subscript_0 (JStr []) = Inl IndexError"
| "subscript_0 (JStr (c # cs)) = Inr (JStr [c])"
| "subscript_0 (JObj kvs) = Inl KeyError"
| "subscript_0 _ = Inl TypeError"

text \<open>\<^verbatim>\<open>x.get(k, d)\<close>: a method of dict only; \<^verbatim>\<open>x.get(k)\<close> is \<^verbatim>\<open>x.get(k, None)\<close>.\<close>

fun get_method :: "json \<Rightarrow> string \<Rightarrow> json \<Rightarrow> exn + json" where
  "get_method (JObj kvs) k d = Inr (case map_of kvs k of None \<Rightarrow> d | Some v \<Rightarrow> v)"
| "get_method _ k d = Inl AttributeError"

text \<open>\<^verbatim>\<open>for x in v\<close>: the items of a list, the keys of a dict, the characters of a string.\<close>

fun iterate :: "json \<Rightarrow> exn + json list" where
  "iterate (JList xs) = Inr xs"
| "iterate (JObj kvs) = Inr (map (\<lambda>kv. JStr (fst kv)) kvs)"
| "iterate (JStr s) = Inr (map (\<lambda>c. JStr [c]) s)"
| "iterate _ = Inl TypeError"

text \<open>Sequencing of a computation that may raise.\<close>

definition bindE :: "exn + 'a \<Rightarrow> ('a \<Rightarrow> exn + 'b) \<Rightarrow> exn + 'b" where
  "bindE m f = (case m of Inl e \<Rightarrow> Inl e | Inr x \<Rightarrow> f x)"

fun mapE :: "('a \<Rightarrow> exn + 'b) \<Rightarrow> 'a list \<Rightarrow> exn + 'b list" where
  "mapE f [] = Inr []"
| "mapE f (x # xs) = bindE (f x) (\<lambda>y. bindE (mapE f xs) (\<lambda>ys. Inr (y # ys)))"

text \<open>A list comprehension \<^verbatim>\<open>[x for x in xs if p(x)]\<close> whose condition may raise.\<close>

fun filterE :: "('a \<Rightarrow> exn + bool) \<Rightarrow> 'a list \<Rightarrow> exn + 'a list" where
  "filterE p [] = Inr []"
| "filterE p (x # xs) =
     bindE (p x) (\<lambda>b. bindE (filterE p xs) (\<lambda>ys. Inr (if b then x # ys else ys)))"

section \<open>Strings\<close>

text \<open>\<^verbatim>\<open>a in b\<close> on strings: \<open>a\<close> occurs in \<open>b\<close> as a contiguous run.\<close>

fun str_in :: "string \<Rightarrow> string \<Rightarrow> bool" where
  "str_in a [] = (a = [])"
| "str_in a (c # cs) = (prefix a (c # cs) \<or> str_in a cs)"

text \<open>\<^verbatim>\<open>s.split(":")[-1]\<close>: what follows the last colon, the whole string without one.\<close>

fun split_colon :: "string \<Rightarrow> string list" where
  "split_colon [] = [[]]"
| "split_colon (c # cs) =
     (case split_colon cs of
        [] \<Rightarrow> [[]]
      | p # ps \<Rightarrow> if c = CHR '':'' then [] # p # ps else (c # p) # ps)"

definition last_component :: "string \<Rightarrow> string" where
  "last_component s = last (split_colon s)"

text \<open>\<^verbatim>\<open>s.replace("Z", "+00:00")\<close>.\<close>

definition replace_Z :: "string \<Rightarrow> string" where
  "replace_Z s = concat (map (\<lambda>c. if c = CHR ''Z'' then ''+00:00'' else [c]) s)"

section \<open>models.py\<close>

text \<open>
  The standard library is not code of the repository. What the code takes from it beyond
  plain list and string handling is a parameter:
  \<^item> \<open>unaccent\<close>: NFD decomposition followed by the removal of every character of category Mn;
  \<^item> \<open>lower\<close>: \<^verbatim>\<open>str.lower\<close>;
  \<^item> \<open>iso_timestamp\<close>: \<^verbatim>\<open>datetime.fromisoformat(s).timestamp()\<close>, \<open>None\<close> where it raises
    ValueError;
  \<^item> \<open>repr_of\<close>: \<^verbatim>\<open>str(v)\<close> for a value that is not a string.
\<close>

record pylib =
  unaccent :: "string \<Rightarrow> string"
  lower :: "string \<Rightarrow> string"
  iso_timestamp :: "string \<Rightarrow> real option"
  repr_of :: "json \<Rightarrow> string"

text \<open>Whitespace (\<^verbatim>\<open>\s\<close>, and what \<^verbatim>\<open>strip\<close> removes) among the first 256 code points.\<close>

definition is_space :: "char \<Rightarrow> bool" where
  "is_space c = (of_char c \<in> {9, 10, 11, 12, 13, 28, 29, 30, 31, 32, 133, 160 :: nat})"

text \<open>The class \<^verbatim>\<open>[-''\s<>()]\<close> of the regular expression.\<close>

definition is_sep :: "char \<Rightarrow> bool" where
  "is_sep c = (c \<in> {CHR ''-'', CHR 0x27, CHR ''<'', CHR ''>'', CHR ''('', CHR '')''} \<or> is_space c)"

text \<open>\<^verbatim>\<open>re.sub(r"[-''\s<>()]+", " ", text)\<close>: every maximal run of the class becomes one space.\<close>

fun collapse_from :: "bool \<Rightarrow> string \<Rightarrow> string" where
  "collapse_from in_run [] = []"
| "collapse_from in_run (c # cs) =
     (if is_sep c then (if in_run then collapse_from True cs else CHR '' '' # collapse_from True cs)
      else c # collapse_from False cs)"

definition collapse_seps :: "string \<Rightarrow> string" where
  "collapse_seps s = collapse_from False s"

definition strip :: "string \<Rightarrow> string" where
  "strip s = rev (dropWhile is_space (rev (dropWhile is_space s)))"

definition normalize :: "pylib \<Rightarrow> string \<Rightarrow> string" where
  "normalize U text = lower U (strip (collapse_seps (unaccent U text)))"

definition is_same_place :: "string \<Rightarrow> string \<Rightarrow> bool" where
  "is_same_place a b = (if a = [] \<or> b = [] then False else str_in a b \<or> str_in b a)"


record favourite =
  stop_area_id :: string
  stop_name :: string
  line_id :: string
  line_name :: string
  line_color :: string
  line_text_color :: string
  direction :: string
  destination_name :: string

text \<open>
  A \<^verbatim>\<open>Departure\<close> holds whatever the parser put into it: the annotations of the dataclass
  are not enforced, so a field read from the payload is a JSON value. The fields
  \<^verbatim>\<open>line_name\<close> and \<^verbatim>\<open>line_id\<close> carry the prefix \<open>dep_\<close> here, \<^typ>\<open>favourite\<close>
  having fields of the same names.
\<close>

record departure =
  dep_line_name :: json
  dep_line_id :: json
  destination :: json
  expected_iso :: string
  departure_status :: json
  vehicle_at_stop :: json
  direction_ref :: json
  fetch_timestamp :: real
  eta_seconds :: real

section \<open>api.py: the network\<close>

text \<open>
  A request is what \<^verbatim>\<open>requests.get\<close> is called with: the two parameters of a live-feed
  request, or the \<^verbatim>\<open>where\<close> clause of a lookup in the stops catalog. The network answers a
  request either by a \<^verbatim>\<open>RequestException\<close> (raised by \<^verbatim>\<open>get\<close>, \<^verbatim>\<open>raise_for_status\<close> or
  \<^verbatim>\<open>json\<close>), or by a decoded body together with the instant \<^verbatim>\<open>time.time()\<close> of its receipt.
\<close>

datatype request = Stop_monitoring string string | Stops_lookup string

datatype response = Transport_failure | Payload real json

type_synonym network = "request \<Rightarrow> response"

definition siri_request :: "string \<Rightarrow> string \<Rightarrow> request" where
  "siri_request stop_area line =
     Stop_monitoring (''STIF:StopArea:SP:'' @ stop_area @ '':'') (''STIF:Line::'' @ line @ '':'')"

datatype error_kind = Erreur_reseau | Erreur_donnees | Erreur_resolution | Erreur_directions

datatype 'r signal = Error error_kind | Finished 'r

section \<open>api.py: DepartureWorker\<close>

text \<open>
  \<^verbatim>\<open>data["Siri"]["ServiceDelivery"]["StopMonitoringDelivery"][0]\<close> followed by
  \<^verbatim>\<open>delivery.get("MonitoredStopVisit", [])\<close>, the body of the \<^verbatim>\<open>try\<close> that the parser and
  the prober share.
\<close>

definition delivery_visits :: "json \<Rightarrow> exn + json" where
  "delivery_visits data =
     bindE (subscript_key data ''Siri'') (\<lambda>siri.
     bindE (subscript_key siri ''ServiceDelivery'') (\<lambda>sd.
     bindE (subscript_key sd ''StopMonitoringDelivery'') (\<lambda>smd.
     bindE (subscript_0 smd) (\<lambda>delivery.
     get_method delivery ''MonitoredStopVisit'' (JList [])))))"

text \<open>
  \<^verbatim>\<open>x = journey.get(K) or [{}]\<close>, then the first item's \<^verbatim>\<open>"value"\<close> for a list, the string
  itself for a string, the default for anything else.
\<close>

definition decode_name :: "string \<Rightarrow> json \<Rightarrow> exn + json" where
  "decode_name dflt v0 =
     (let v = py_or v0 (JList [JObj []]) in
      case v of
        JList xs \<Rightarrow>
          (if xs \<noteq> [] then bindE (subscript_0 v) (\<lambda>h. get_method h ''value'' (JStr dflt))
           else Inr (JStr dflt))
      | JStr s \<Rightarrow> Inr v
      | _ \<Rightarrow> Inr (JStr dflt))"

text \<open>
  The time left, from the expected time: \<^verbatim>\<open>replace\<close> is a method of strings only, and a
  ValueError of \<^verbatim>\<open>fromisoformat\<close> is caught.
\<close>

definition eta_of :: "pylib \<Rightarrow> real \<Rightarrow> json \<Rightarrow> exn + real" where
  "eta_of L fetch_ts expected_time =
     (if truthy expected_time then
        (case expected_time of
           JStr s \<Rightarrow>
             Inr (case iso_timestamp L (replace_Z s) of
                    None \<Rightarrow> 0
                  | Some expected_epoch \<Rightarrow> expected_epoch - fetch_ts)
         | _ \<Rightarrow> Inl AttributeError)
      else Inr 0)"

definition str_or_empty :: "json \<Rightarrow> string" where
  "str_or_empty v = (case v of JStr s \<Rightarrow> s | _ \<Rightarrow> [])"

text \<open>The body of the loop over the visits.\<close>

definition parse_visit :: "pylib \<Rightarrow> real \<Rightarrow> json \<Rightarrow> exn + departure" where
  "parse_visit L fetch_ts visit =
     bindE (get_method visit ''MonitoredVehicleJourney'' (JObj [])) (\<lambda>journey.
     bindE (get_method journey ''MonitoredCall'' (JObj [])) (\<lambda>call.
     bindE (get_method journey ''DestinationName'' JNull) (\<lambda>dn.
     bindE (decode_name ''?'' dn) (\<lambda>dest.
     bindE (get_method call ''ExpectedDepartureTime'' JNull) (\<lambda>t1.
     bindE (get_method call ''ExpectedArrivalTime'' JNull) (\<lambda>t2.
     bindE (get_method call ''AimedDepartureTime'' JNull) (\<lambda>t3.
     let expected_time = py_or (py_or t1 t2) t3 in
     bindE (get_method journey ''PublishedLineName'' JNull) (\<lambda>pn.
     bindE (decode_name [] pn) (\<lambda>lname.
     bindE (get_method journey ''LineRef'' (JObj [])) (\<lambda>lr.
     bindE (get_method lr ''value'' (JStr [])) (\<lambda>line_ref.
     bindE (get_method call ''DepartureStatus'' (JStr [])) (\<lambda>dep_status.
     bindE (get_method call ''VehicleAtStop'' (JBool False)) (\<lambda>at_stop.
     bindE (get_method journey ''DirectionRef'' (JObj [])) (\<lambda>dr.
     bindE (get_method dr ''value'' (JStr [])) (\<lambda>dir_ref.
     bindE (eta_of L fetch_ts expected_time) (\<lambda>eta.
     Inr \<lparr> dep_line_name = lname, dep_line_id = line_ref, destination = dest,
           expected_iso = str_or_empty (py_or expected_time (JStr [])),
           departure_status = dep_status, vehicle_at_stop = at_stop,
           direction_ref = dir_ref, fetch_timestamp = fetch_ts,
           eta_seconds = eta \<rparr>))))))))))))))))"

text \<open>\<^verbatim>\<open>_parse_departures\<close>: a KeyError or IndexError on the way to the visits gives no departure.\<close>

definition parse_departures :: "pylib \<Rightarrow> json \<Rightarrow> real \<Rightarrow> exn + departure list" where
  "parse_departures L data fetch_ts =
     (case delivery_visits data of
        Inl e \<Rightarrow> if e = KeyError \<or> e = IndexError then Inr [] else Inl e
      | Inr visits \<Rightarrow> bindE (iterate visits) (mapE (parse_visit L fetch_ts)))"

text \<open>The grouping loop: \<^verbatim>\<open>groups\<close> is a dict, kept in insertion order.\<close>

definition add_to_group ::
  "((string \<times> string) \<times> favourite list) list \<Rightarrow> favourite \<Rightarrow>
   ((string \<times> string) \<times> favourite list) list" where
  "add_to_group groups fav =
     (let key = (stop_area_id fav, line_id fav);
          groups1 = (if key \<notin> set (map fst groups) then AList.update key [] groups else groups)
      in AList.update key (the (map_of groups1 key) @ [fav]) groups1)"

definition group_favourites :: "favourite list \<Rightarrow> ((string \<times> string) \<times> favourite list) list" where
  "group_favourites favs = foldl add_to_group [] favs"

definition fav_key :: "favourite \<Rightarrow> string" where
  "fav_key fav = stop_area_id fav @ ''_'' @ line_id fav @ ''_'' @ direction fav"

definition pair_of :: "favourite \<Rightarrow> string \<times> string" where
  "pair_of fav = (stop_area_id fav, line_id fav)"


text \<open>
  The condition of the comprehension, its conjuncts evaluated from left to right:
  \<^verbatim>\<open>d.destination.lower()\<close> raises when the destination is not a string.
\<close>

definition matches :: "pylib \<Rightarrow> favourite \<Rightarrow> departure \<Rightarrow> exn + bool" where
  "matches L fav d =
     (if \<not> eta_seconds d \<ge> 0 then Inr False
      else case destination d of
        JStr dest \<Rightarrow>
          (if \<not> str_in (lower L (destination_name fav)) (lower L dest) then Inr False
           else if \<not> (direction fav = [] \<or> direction_ref d = JStr (direction fav)) then Inr False
           else Inr (\<not> is_same_place (normalize L (stop_name fav)) (normalize L dest)))
      | _ \<Rightarrow> Inl AttributeError)"

text \<open>What one favourite receives: the survivors, sorted (stably) by expected time, five at most.\<close>

definition rank :: "departure list \<Rightarrow> departure list" where
  "rank matched = take 5 (sort_key expected_iso matched)"

text \<open>The loop over the favourites of one group; \<^verbatim>\<open>results\<close> is updated in place.\<close>

fun distribute ::
  "pylib \<Rightarrow> departure list \<Rightarrow> favourite list \<Rightarrow> (string \<times> departure list) list \<Rightarrow>
   exn option \<times> (string \<times> departure list) list" where
  "distribute L deps [] results = (None, results)"
| "distribute L deps (fav # favs) results =
     (case filterE (matches L fav) deps of
        Inl e \<Rightarrow> (Some e, results)
      | Inr matched \<Rightarrow> distribute L deps favs (AList.update (fav_key fav) (rank matched) results))"

record worker_state =
  requests :: "request list"
  emitted :: "(string \<times> departure list) list signal list"
  results :: "(string \<times> departure list) list"
  uncaught :: "exn option"

text \<open>
  The body of the loop over the groups: one request, then the \<^verbatim>\<open>try\<close> block with its two
  \<^verbatim>\<open>except\<close> clauses. An exception that neither clause takes is recorded in \<open>uncaught\<close>.
\<close>

definition process_group ::
  "pylib \<Rightarrow> network \<Rightarrow> (string \<times> string) \<times> favourite list \<Rightarrow> worker_state \<Rightarrow> worker_state" where
  "process_group L net g st =
     (case g of ((stop_area, line), favs) \<Rightarrow>
      let st1 = st\<lparr>requests := requests st @ [siri_request stop_area line]\<rparr> in
      case net (siri_request stop_area line) of
        Transport_failure \<Rightarrow> st1\<lparr>emitted := emitted st1 @ [Error Erreur_reseau]\<rparr>
      | Payload fetch_ts data \<Rightarrow>
          (case parse_departures L data fetch_ts of
             Inl e \<Rightarrow>
               (if e = KeyError \<or> e = ValueError
                then st1\<lparr>emitted := emitted st1 @ [Error Erreur_donnees]\<rparr>
                else st1\<lparr>uncaught := Some e\<rparr>)
           | Inr all_departures \<Rightarrow>
               (case distribute L all_departures favs (results st1) of
                  (None, res) \<Rightarrow> st1\<lparr>results := res\<rparr>
                | (Some e, res) \<Rightarrow>
                    (if e = KeyError \<or> e = ValueError
                     then st1\<lparr>results := res, emitted := emitted st1 @ [Error Erreur_donnees]\<rparr>
                     else st1\<lparr>results := res, uncaught := Some e\<rparr>))))"

text \<open>The loop over the groups: an uncaught exception leaves \<^verbatim>\<open>run\<close>, nothing more happens.\<close>

fun process_groups ::
  "pylib \<Rightarrow> network \<Rightarrow> ((string \<times> string) \<times> favourite list) list \<Rightarrow> worker_state \<Rightarrow> worker_state" where
  "process_groups L net [] st = st"
| "process_groups L net (g # gs) st =
     (let st' = process_group L net g st in
      case uncaught st' of
        None \<Rightarrow> process_groups L net gs st'
      | Some e \<Rightarrow> st')"

definition DepartureWorker_run :: "pylib \<Rightarrow> network \<Rightarrow> favourite list \<Rightarrow> worker_state" where
  "DepartureWorker_run L net favs =
     (let st = process_groups L net (group_favourites favs)
                 \<lparr>requests = [], emitted = [], results = [], uncaught = None\<rparr>
      in case uncaught st of
           None \<Rightarrow> st\<lparr>emitted := emitted st @ [Finished (results st)]\<rparr>
         | Some e \<Rightarrow> st)"

section \<open>api.py: ResolveAndProbeWorker\<close>

text \<open>\<^verbatim>\<open>str(v)\<close>: a string is returned as it is.\<close>

definition py_str :: "pylib \<Rightarrow> json \<Rightarrow> string" where
  "py_str L v = (case v of JStr s \<Rightarrow> s | _ \<Rightarrow> repr_of L v)"

definition stops_request :: "string \<Rightarrow> request" where
  "stops_request arr_id = Stops_lookup (''arrid='' @ [CHR 0x22] @ arr_id @ [CHR 0x22])"

text \<open>
  \<^verbatim>\<open>_resolve\<close>, with the requests it has issued. The stop name it returns is the empty string
  or whatever the catalog record holds under \<^verbatim>\<open>"arrname"\<close>.
\<close>

definition resolve :: "pylib \<Rightarrow> network \<Rightarrow> string \<Rightarrow> request list \<times> (exn + string \<times> json)" where
  "resolve L net stop_id =
     (if str_in ''monomodalStopPlace'' stop_id then ([], Inr (last_component stop_id, JStr []))
      else
        let arr_id = (if str_in '':'' stop_id then last_component stop_id else stop_id) in
        ([stops_request arr_id],
         case net (stops_request arr_id) of
           Transport_failure \<Rightarrow> Inl RequestException
         | Payload ts data \<Rightarrow>
             bindE (get_method data ''results'' (JList [])) (\<lambda>records.
             if truthy records then
               bindE (subscript_0 records) (\<lambda>r0.
               bindE (get_method r0 ''arrname'' (JStr [])) (\<lambda>name.
               bindE (subscript_0 records) (\<lambda>r1.
               bindE (get_method r1 ''zdaid'' (JStr [])) (\<lambda>zdaid.
               Inr (py_str L zdaid, name)))))
             else Inr ([], JStr []))))"

text \<open>
  A dict key must be hashable, and keys that compare equal are one key: \<^verbatim>\<open>True\<close> and
  \<^verbatim>\<open>1\<close> are.
\<close>

fun hashable :: "json \<Rightarrow> bool" where
  "hashable (JList xs) = False"
| "hashable (JObj kvs) = False"
| "hashable _ = True"

fun key_norm :: "json \<Rightarrow> json" where
  "key_norm (JBool b) = JNum (if b then 1 else 0)"
| "key_norm v = v"

text \<open>
  The loop of \<^verbatim>\<open>_probe_directions\<close>; \<^verbatim>\<open>destinations\<close> is a dict, kept in insertion
  order.
\<close>

definition probe_dest :: "json \<Rightarrow> exn + json" where
  "probe_dest v0 =
     (let v = py_or v0 (JList [JObj []]) in
      case v of
        JList xs \<Rightarrow>
          (if xs \<noteq> [] then bindE (subscript_0 v) (\<lambda>h. get_method h ''value'' (JStr ''?''))
           else Inr (JStr ''?''))
      | _ \<Rightarrow> Inr v)"

fun probe_loop :: "json list \<Rightarrow> (json \<times> json) list \<Rightarrow> exn + (json \<times> json) list" where
  "probe_loop [] destinations = Inr destinations"
| "probe_loop (visit # visits) destinations =
     bindE (get_method visit ''MonitoredVehicleJourney'' (JObj [])) (\<lambda>journey.
     bindE (get_method journey ''DestinationName'' JNull) (\<lambda>dn.
     bindE (probe_dest dn) (\<lambda>dest.
     bindE (get_method journey ''DirectionRef'' (JObj [])) (\<lambda>dr.
     bindE (get_method dr ''value'' (JStr [])) (\<lambda>dir_ref.
     if truthy dest \<and> dest \<noteq> JStr ''?'' then
       (if \<not> hashable dest then Inl TypeError
        else if key_norm dest \<notin> set (map (\<lambda>kv. key_norm (fst kv)) destinations)
        then probe_loop visits (destinations @ [(dest, dir_ref)])
        else probe_loop visits destinations)
     else probe_loop visits destinations)))))"

definition probe_directions ::
  "network \<Rightarrow> string \<Rightarrow> string \<Rightarrow> exn + (json \<times> json) list" where
  "probe_directions net line stop_area =
     (case net (siri_request stop_area line) of
        Transport_failure \<Rightarrow> Inl RequestException
      | Payload ts data \<Rightarrow>
          (case delivery_visits data of
             Inl e \<Rightarrow> if e = KeyError \<or> e = IndexError then Inr [] else Inl e
           | Inr visits \<Rightarrow> bindE (iterate visits) (\<lambda>vs. probe_loop vs [])))"

record probe_state =
  rp_requests :: "request list"
  rp_emitted :: "(string \<times> json \<times> (json \<times> json) list) signal list"
  rp_uncaught :: "exn option"

text \<open>
  The terminal signal is declared \<^verbatim>\<open>pyqtSignal(str, str, list)\<close>: \<^verbatim>\<open>emit\<close> raises
  TypeError when the stop name it is given is not a string. The stop-area id is always one
  (the result of \<^verbatim>\<open>split\<close> or of \<^verbatim>\<open>str\<close>), the directions are always a list. The function
  returns the signals emitted so far and the exception raised, if any.
\<close>

definition emit_finished ::
  "(string \<times> json \<times> (json \<times> json) list) signal list \<Rightarrow> string \<Rightarrow> json \<Rightarrow> (json \<times> json) list \<Rightarrow>
   (string \<times> json \<times> (json \<times> json) list) signal list \<times> exn option" where
  "emit_finished before stop_area name directions =
     (case name of
        JStr s \<Rightarrow> (before @ [Finished (stop_area, name, directions)], None)
      | _ \<Rightarrow> (before, Some TypeError))"

definition ResolveAndProbeWorker_run :: "pylib \<Rightarrow> network \<Rightarrow> string \<Rightarrow> string \<Rightarrow> probe_state" where
  "ResolveAndProbeWorker_run L net stop_id line =
     (case resolve L net stop_id of
        (reqs, Inl e) \<Rightarrow>
          (if e = RequestException
           then \<lparr>rp_requests = reqs,
                 rp_emitted = [Error Erreur_resolution, Finished ([], JStr [], [])],
                 rp_uncaught = None\<rparr>
           else \<lparr>rp_requests = reqs, rp_emitted = [], rp_uncaught = Some e\<rparr>)
      | (reqs, Inr (stop_area, name)) \<Rightarrow>
          (if stop_area = []
           then \<lparr>rp_requests = reqs, rp_emitted = [Finished ([], JStr [], [])], rp_uncaught = None\<rparr>
           else
             (case probe_directions net line stop_area of
                Inr directions \<Rightarrow>
                  (case emit_finished [] stop_area name directions of
                     (sigs, u) \<Rightarrow>
                       \<lparr>rp_requests = reqs @ [siri_request stop_area line],
                        rp_emitted = sigs, rp_uncaught = u\<rparr>)
              | Inl e \<Rightarrow>
                  (if e = RequestException
                   then
                     (case emit_finished [Error Erreur_directions] stop_area name [] of
                        (sigs, u) \<Rightarrow>
                          \<lparr>rp_requests = reqs @ [siri_request stop_area line],
                           rp_emitted = sigs, rp_uncaught = u\<rparr>)
                   else \<lparr>rp_requests = reqs @ [siri_request stop_area line],
                         rp_emitted = [], rp_uncaught = Some e\<rparr>))))"

section \<open>Concrete inputs\<close>

text \<open>
  For the examples below: a library that handles ASCII text (nothing to decompose, the letters
  \<open>A\<close> to \<open>Z\<close> lowered), knows no timestamp and prints nothing.
\<close>

definition ascii_lower :: "string \<Rightarrow> string" where
  "ascii_lower s =
     map (\<lambda>c. case map_of (zip ''ABCDEFGHIJKLMNOPQRSTUVWXYZ'' ''abcdefghijklmnopqrstuvwxyz'') c of
                None \<Rightarrow> c | Some l \<Rightarrow> l) s"

definition ascii_lib :: pylib where
  "ascii_lib = \<lparr>unaccent = (\<lambda>s. s), lower = ascii_lower, iso_timestamp = (\<lambda>s. None),
                 repr_of = (\<lambda>v. [])\<rparr>"

definition mk_fav :: "string \<Rightarrow> string \<Rightarrow> string \<Rightarrow> string \<Rightarrow> string \<Rightarrow> favourite" where
  "mk_fav sa sn lid dir dest =
     \<lparr>stop_area_id = sa, stop_name = sn, line_id = lid, line_name = ''A'',
      line_color = ''FFFFFF'', line_text_color = ''000000'', direction = dir,
      destination_name = dest\<rparr>"

definition mk_dep :: "string \<Rightarrow> string \<Rightarrow> string \<Rightarrow> real \<Rightarrow> departure" where
  "mk_dep dest tm dir eta =
     \<lparr>dep_line_name = JStr ''A'', dep_line_id = JStr ''L'', destination = JStr dest,
      expected_iso = tm, departure_status = JStr ''onTime'', vehicle_at_stop = JBool False,
      direction_ref = JStr dir, fetch_timestamp = 0, eta_seconds = eta\<rparr>"

text \<open>A live-feed body of the expected shape, one visit per destination, direction and time.\<close>

definition mk_visit :: "json \<Rightarrow> string \<Rightarrow> string \<Rightarrow> json" where
  "mk_visit dest dir tm =
     JObj [(''MonitoredVehicleJourney'',
            JObj [(''PublishedLineName'', JList [JObj [(''value'', JStr ''259'')]]),
                  (''DestinationName'', dest),
                  (''LineRef'', JObj [(''value'', JStr ''STIF:Line::C02000:'')]),
                  (''DirectionRef'', JObj [(''value'', JStr dir)]),
                  (''MonitoredCall'',
                   JObj [(''ExpectedDepartureTime'', JStr tm),
                         (''DepartureStatus'', JStr ''onTime''),
                         (''VehicleAtStop'', JBool False)])])]"

definition named :: "string \<Rightarrow> json" where
  "named s = JList [JObj [(''value'', JStr s)]]"

definition siri_body :: "json list \<Rightarrow> json" where
  "siri_body visits =
     JObj [(''Siri'',
            JObj [(''ServiceDelivery'',
                   JObj [(''StopMonitoringDelivery'',
                          JList [JObj [(''MonitoredStopVisit'', JList visits)]])])])]"

text \<open>Networks: one that answers every request with the same body, and some that fail.\<close>

definition net_const :: "json \<Rightarrow> network" where
  "net_const data r = Payload 0 data"


definition net_down :: network where
  "net_down r = Transport_failure"

text \<open>What the parser makes of \<open>mk_visit (named dest) dir tm\<close>, received at instant 0.\<close>

definition seen :: "string \<Rightarrow> string \<Rightarrow> string \<Rightarrow> departure" where
  "seen dest dir tm =
     \<lparr>dep_line_name = JStr ''259'', dep_line_id = JStr ''STIF:Line::C02000:'',
      destination = JStr dest, expected_iso = tm, departure_status = JStr ''onTime'',
      vehicle_at_stop = JBool False, direction_ref = JStr dir, fetch_timestamp = 0,
      eta_seconds = 0\<rparr>"

lemmas example_defs =
  matches_def mk_fav_def mk_dep_def bindE_def ascii_lib_def ascii_lower_def normalize_def
  strip_def collapse_seps_def is_sep_def is_space_def is_same_place_def

section \<open>Properties\<close>

lemma str_in_iff: "str_in a b \<longleftrightarrow> (\<exists>p s. b = p @ a @ s)"
proof (induction b)
  case Nil
  show ?case by auto
next
  case (Cons c cs)
  show ?case
  proof
    assume "str_in a (c # cs)"
    then consider "prefix a (c # cs)" | "str_in a cs" by auto
    then show "\<exists>p s. c # cs = p @ a @ s"
    proof cases
      case 1
      then obtain s where "c # cs = a @ s" by (auto simp: prefix_def)
      then have "c # cs = [] @ a @ s" by simp
      then show ?thesis by blast
    next
      case 2
      with Cons.IH obtain p s where "cs = p @ a @ s" by blast
      then have "c # cs = (c # p) @ a @ s" by simp
      then show ?thesis by blast
    qed
  next
    assume "\<exists>p s. c # cs = p @ a @ s"
    then obtain p s where ps: "c # cs = p @ a @ s" by blast
    show "str_in a (c # cs)"
    proof (cases p)
      case Nil
      with ps have "prefix a (c # cs)" by (simp add: prefix_def)
      then show ?thesis by simp
    next
      case (Cons q qs)
      with ps have "cs = qs @ a @ s" by simp
      with Cons.IH have "str_in a cs" by blast
      then show ?thesis by simp
    qed
  qed
qed

text \<open>
  C9. \<open>is_same_place a b\<close> is true exactly when one argument is a non-empty contiguous run
  of the other, in either direction, and it is false as soon as one argument is empty. The
  statement holds for all strings, normalized or not.
\<close>

theorem is_same_place_spec:
  "(is_same_place a b \<longleftrightarrow>
      (a \<noteq> [] \<and> b \<noteq> [] \<and> ((\<exists>p s. b = p @ a @ s) \<or> (\<exists>p s. a = p @ b @ s))))
   \<and> \<not> is_same_place [] b \<and> \<not> is_same_place a []"
  by (simp add: is_same_place_def str_in_iff)

subsection \<open>The filter of one favourite\<close>

lemma filterE_Inr:
  "filterE p xs = Inr ys \<Longrightarrow> ys = filter (\<lambda>x. p x = Inr True) xs"
proof (induction xs arbitrary: ys)
  case Nil
  then show ?case by simp
next
  case (Cons x xs)
  from Cons.prems obtain b where b: "p x = Inr b"
    by (cases "p x") (auto simp: bindE_def)
  from Cons.prems b obtain zs where zs: "filterE p xs = Inr zs"
    by (cases "filterE p xs") (auto simp: bindE_def)
  from Cons.prems b zs have ys: "ys = (if b then x # zs else zs)"
    by (simp add: bindE_def)
  from Cons.IH [OF zs] have "zs = filter (\<lambda>x. p x = Inr True) xs" .
  with ys b show ?case by auto
qed

lemma matches_True_iff:
  "matches L fav d = Inr True \<longleftrightarrow>
     (0 \<le> eta_seconds d \<and>
      (\<exists>dest. destination d = JStr dest \<and>
         str_in (lower L (destination_name fav)) (lower L dest) \<and>
         (direction fav = [] \<or> direction_ref d = JStr (direction fav)) \<and>
         \<not> is_same_place (normalize L (stop_name fav)) (normalize L dest)))"
  by (cases "destination d") (auto simp: matches_def)

lemma is_same_place_sym: "is_same_place a b = is_same_place b a"
  by (auto simp: is_same_place_def)

lemma rank_subset: "set (rank matched) \<subseteq> set matched"
  unfolding rank_def using set_take_subset [of 5 "sort_key expected_iso matched"] by simp

lemma sorted_rank: "sorted (map expected_iso (rank matched))"
  unfolding rank_def by (simp add: take_map [symmetric] sorted_wrt_take)

lemma length_rank: "length (rank matched) = min (length matched) 5"
  unfolding rank_def by simp

lemma rank_mset:
  "mset (rank matched) + mset (drop 5 (sort_key expected_iso matched)) = mset matched"
  unfolding rank_def
  by (metis append_take_drop_id mset_append mset_sort)

lemma rank_earliest:
  "\<forall>x \<in> set (rank matched). \<forall>y \<in> set (drop 5 (sort_key expected_iso matched)).
     expected_iso x \<le> expected_iso y"
proof -
  have s: "sorted (map expected_iso (take 5 (sort_key expected_iso matched)
                                      @ drop 5 (sort_key expected_iso matched)))"
    by simp
  show ?thesis unfolding rank_def using s
    unfolding map_append sorted_append by auto
qed

text \<open>
  C3. Let \<open>matched\<close> be what the filter of a favourite keeps of the parsed departures. If the
  favourite has a non-empty direction, every departure kept has exactly that direction
  reference. If its direction is empty, a departure is kept exactly when the three other
  criteria hold (time left not negative, destination containing the favourite's destination
  name, destination not the favourite's own stop): its direction reference plays no part.
\<close>

theorem direction_criterion:
  assumes "filterE (matches L fav) deps = Inr matched"
  shows "(direction fav \<noteq> [] \<longrightarrow> (\<forall>d \<in> set matched. direction_ref d = JStr (direction fav))) \<and>
         (direction fav = [] \<longrightarrow>
            (\<forall>d \<in> set deps. d \<in> set matched \<longleftrightarrow>
               (0 \<le> eta_seconds d \<and>
                (\<exists>dest. destination d = JStr dest \<and>
                   str_in (lower L (destination_name fav)) (lower L dest) \<and>
                   \<not> is_same_place (normalize L (stop_name fav)) (normalize L dest)))))"
proof -
  from filterE_Inr [OF assms]
  have m: "matched = filter (\<lambda>d. matches L fav d = Inr True) deps" .
  show ?thesis unfolding m by (auto simp: matches_True_iff)
qed

theorem direction_criterion_witness:
  "filterE (matches ascii_lib (mk_fav ''50980'' ''Test'' ''C02000'' ''1'' []))
     [mk_dep ''Paris'' ''t1'' ''1'' 300, mk_dep ''Lyon'' ''t2'' ''2'' 600]
     = Inr [mk_dep ''Paris'' ''t1'' ''1'' 300]
   \<and> direction_ref (mk_dep ''Paris'' ''t1'' ''1'' 300) = JStr ''1''
   \<and> filterE (matches ascii_lib (mk_fav ''50980'' ''Test'' ''C02000'' [] []))
     [mk_dep ''Paris'' ''t1'' ''1'' 300, mk_dep ''Lyon'' ''t2'' ''2'' 600]
     = Inr [mk_dep ''Paris'' ''t1'' ''1'' 300, mk_dep ''Lyon'' ''t2'' ''2'' 600]
   \<and> mk_dep ''Lyon'' ''t2'' ''2'' 600 \<in> set [mk_dep ''Paris'' ''t1'' ''1'' 300, mk_dep ''Lyon'' ''t2'' ''2'' 600]"
proof -
  have h1: "filterE (matches ascii_lib (mk_fav ''50980'' ''Test'' ''C02000'' ''1'' []))
     [mk_dep ''Paris'' ''t1'' ''1'' 300, mk_dep ''Lyon'' ''t2'' ''2'' 600]
     = Inr [mk_dep ''Paris'' ''t1'' ''1'' 300]"
    by (simp add: example_defs)
  have h2: "filterE (matches ascii_lib (mk_fav ''50980'' ''Test'' ''C02000'' [] []))
     [mk_dep ''Paris'' ''t1'' ''1'' 300, mk_dep ''Lyon'' ''t2'' ''2'' 600]
     = Inr [mk_dep ''Paris'' ''t1'' ''1'' 300, mk_dep ''Lyon'' ''t2'' ''2'' 600]"
    by (simp add: example_defs)
  have d1: "direction (mk_fav ''50980'' ''Test'' ''C02000'' ''1'' []) = ''1''"
    by (simp add: mk_fav_def)
  from direction_criterion [OF h1] d1
  have "direction_ref (mk_dep ''Paris'' ''t1'' ''1'' 300) = JStr ''1''" by simp
  moreover note direction_criterion [OF h2]
  ultimately show ?thesis using h1 h2 by simp
qed

text \<open>
  C4. A departure whose normalized destination is the same place as the favourite's
  normalized stop name is not among the departures the filter keeps, hence not in the list the
  favourite receives, whatever its time left, its destination text and its direction
  reference are.
\<close>

theorem same_place_excluded:
  assumes "filterE (matches L fav) deps = Inr matched"
    and "destination d = JStr dest"
    and "is_same_place (normalize L dest) (normalize L (stop_name fav))"
  shows "d \<notin> set matched \<and> d \<notin> set (rank matched)"
proof -
  from filterE_Inr [OF assms(1)]
  have m: "matched = filter (\<lambda>d. matches L fav d = Inr True) deps" .
  from assms(2,3) have "matches L fav d \<noteq> Inr True"
    by (auto simp: matches_True_iff is_same_place_sym)
  then have "d \<notin> set matched" unfolding m by simp
  with rank_subset [of matched] show ?thesis by auto
qed

theorem same_place_excluded_witness:
  "filterE (matches ascii_lib (mk_fav ''43114'' ''Gare-Nord'' ''C01742'' ''1'' []))
     [mk_dep ''Gare-Nord'' ''t1'' ''1'' 300, mk_dep ''Lyon'' ''t2'' ''1'' 600,
      mk_dep ''Gare-nord <RER>'' ''t3'' ''1'' 900]
     = Inr [mk_dep ''Lyon'' ''t2'' ''1'' 600]
   \<and> is_same_place (normalize ascii_lib ''Gare-nord <RER>'') (normalize ascii_lib ''Gare-Nord'')
   \<and> mk_dep ''Gare-nord <RER>'' ''t3'' ''1'' 900 \<notin> set (rank [mk_dep ''Lyon'' ''t2'' ''1'' 600])"
proof -
  have h: "filterE (matches ascii_lib (mk_fav ''43114'' ''Gare-Nord'' ''C01742'' ''1'' []))
     [mk_dep ''Gare-Nord'' ''t1'' ''1'' 300, mk_dep ''Lyon'' ''t2'' ''1'' 600,
      mk_dep ''Gare-nord <RER>'' ''t3'' ''1'' 900]
     = Inr [mk_dep ''Lyon'' ''t2'' ''1'' 600]"
    by (simp add: example_defs)
  have d: "destination (mk_dep ''Gare-nord <RER>'' ''t3'' ''1'' 900) = JStr ''Gare-nord <RER>''"
    by (simp add: mk_dep_def)
  have s: "is_same_place (normalize ascii_lib ''Gare-nord <RER>'')
             (normalize ascii_lib (stop_name (mk_fav ''43114'' ''Gare-Nord'' ''C01742'' ''1'' [])))"
    by (simp add: example_defs)
  from same_place_excluded [OF h d s] h s show ?thesis by (simp add: mk_fav_def)
qed

subsection \<open>The stop resolver\<close>

lemma split_colon_nonempty: "split_colon s \<noteq> []"
  by (induction s) (auto split: list.splits)

lemma split_colon_parts: "\<forall>x \<in> set (split_colon s). CHR '':'' \<notin> set x"
  by (induction s) (auto split: list.splits)

lemma split_colon_join:
  "s = concat (map (\<lambda>x. x @ '':'') (butlast (split_colon s))) @ last (split_colon s)"
  by (induction s) (auto split: list.splits simp: split_colon_nonempty)

lemma last_component_no_colon: "CHR '':'' \<notin> set (last_component s)"
  unfolding last_component_def using split_colon_parts [of s] split_colon_nonempty [of s]
  by (meson last_in_set)

lemma last_component_trailing:
  "\<exists>p. s = p @ last_component s \<and> (p = [] \<or> last p = CHR '':'')"
proof -
  let ?p = "concat (map (\<lambda>x. x @ '':'') (butlast (split_colon s)))"
  have "?p = [] \<or> last ?p = CHR '':''"
  proof (cases "butlast (split_colon s)" rule: rev_cases)
    case Nil
    then show ?thesis by simp
  next
    case (snoc ys y)
    then show ?thesis by simp
  qed
  with split_colon_join [of s] show ?thesis unfolding last_component_def by blast
qed

lemma str_in_single: "str_in [c] s \<longleftrightarrow> c \<in> set s"
  by (induction s) auto

lemma last_component_whole: "CHR '':'' \<notin> set s \<Longrightarrow> last_component s = s"
proof -
  assume a: "CHR '':'' \<notin> set s"
  from last_component_trailing [of s]
  obtain p where p: "s = p @ last_component s" "p = [] \<or> last p = CHR '':''"
    by blast
  show ?thesis
  proof (cases "p = []")
    case True
    with p show ?thesis by simp
  next
    case False
    with p have "CHR '':'' \<in> set p" by (metis last_in_set)
    with p(1) a show ?thesis by (metis UnCI set_append)
  qed
qed

lemma arr_id_is_last_component:
  "(if str_in '':'' s then last_component s else s) = last_component s"
  by (simp add: str_in_single last_component_whole)

text \<open>
  C6. The resolver looks at the shape of the identifier only. With the marker
  \<^verbatim>\<open>monomodalStopPlace\<close> in it, the result is the trailing colon-separated component as
  stop-area id and an empty stop name, and no request is issued. Without the marker, exactly
  one request is issued, the catalog lookup whose \<^verbatim>\<open>where\<close> clause is \<^verbatim>\<open>arrid="c"\<close> for the
  trailing component \<open>c\<close>, and the result is the pair of empty strings when the body holds no
  record (its \<^verbatim>\<open>results\<close> are missing or empty). The trailing component is the part of the
  identifier after its last colon: it holds no colon, and what precedes it is empty or ends
  with a colon.
\<close>

theorem resolve_by_shape:
  "(str_in ''monomodalStopPlace'' stop_id \<longrightarrow>
      resolve L net stop_id = ([], Inr (last_component stop_id, JStr []))) \<and>
   (\<not> str_in ''monomodalStopPlace'' stop_id \<longrightarrow>
      fst (resolve L net stop_id)
        = [Stops_lookup (''arrid='' @ [CHR 0x22] @ last_component stop_id @ [CHR 0x22])] \<and>
      (\<forall>ts kvs.
         net (Stops_lookup (''arrid='' @ [CHR 0x22] @ last_component stop_id @ [CHR 0x22]))
           = Payload ts (JObj kvs) \<and>
         (case map_of kvs ''results'' of None \<Rightarrow> True | Some v \<Rightarrow> \<not> truthy v) \<longrightarrow>
         snd (resolve L net stop_id) = Inr ([], JStr []))) \<and>
   CHR '':'' \<notin> set (last_component stop_id) \<and>
   (\<exists>p. stop_id = p @ last_component stop_id \<and> (p = [] \<or> last p = CHR '':''))"
proof -
  have a: "str_in ''monomodalStopPlace'' stop_id \<Longrightarrow>
        resolve L net stop_id = ([], Inr (last_component stop_id, JStr []))"
    by (simp add: resolve_def)
  have b: "\<not> str_in ''monomodalStopPlace'' stop_id \<Longrightarrow>
        fst (resolve L net stop_id)
          = [Stops_lookup (''arrid='' @ [CHR 0x22] @ last_component stop_id @ [CHR 0x22])]"
    by (simp add: resolve_def arr_id_is_last_component Let_def stops_request_def)
  have c: "snd (resolve L net stop_id) = Inr ([], JStr [])"
    if "\<not> str_in ''monomodalStopPlace'' stop_id"
      and "net (Stops_lookup (''arrid='' @ [CHR 0x22] @ last_component stop_id @ [CHR 0x22]))
             = Payload ts (JObj kvs)"
      and "case map_of kvs ''results'' of None \<Rightarrow> True | Some v \<Rightarrow> \<not> truthy v"
    for ts kvs
    using that
    by (auto simp: resolve_def arr_id_is_last_component Let_def bindE_def stops_request_def
        split: option.splits)
  from a b c last_component_no_colon [of stop_id] last_component_trailing [of stop_id]
  show ?thesis by blast
qed

theorem resolve_by_shape_witness:
  "str_in ''monomodalStopPlace'' ''IDFM:monomodalStopPlace:470195'' \<and>
   resolve ascii_lib (net_const (JObj [(''results'', JList [])])) ''IDFM:monomodalStopPlace:470195''
     = ([], Inr (''470195'', JStr [])) \<and>
   \<not> str_in ''monomodalStopPlace'' ''IDFM:999999'' \<and>
   fst (resolve ascii_lib (net_const (JObj [(''results'', JList [])])) ''IDFM:999999'')
     = [Stops_lookup (''arrid='' @ [CHR 0x22] @ ''999999'' @ [CHR 0x22])] \<and>
   snd (resolve ascii_lib (net_const (JObj [(''results'', JList [])])) ''IDFM:999999'')
     = Inr ([], JStr [])"
proof -
  have m: "str_in ''monomodalStopPlace'' ''IDFM:monomodalStopPlace:470195''" by simp
  have n: "\<not> str_in ''monomodalStopPlace'' ''IDFM:999999''" by simp
  have l1: "last_component ''IDFM:monomodalStopPlace:470195'' = ''470195''"
    by (simp add: last_component_def)
  have l2: "last_component ''IDFM:999999'' = ''999999''"
    by (simp add: last_component_def)
  have p: "net_const (JObj [(''results'', JList [])])
             (Stops_lookup (''arrid='' @ [CHR 0x22] @ last_component ''IDFM:999999'' @ [CHR 0x22]))
             = Payload 0 (JObj [(''results'', JList [])]) \<and>
           (case map_of [(''results'', JList [])] ''results'' of
              None \<Rightarrow> True | Some v \<Rightarrow> \<not> truthy v)"
    by (simp add: net_const_def)
  from resolve_by_shape [of "''IDFM:monomodalStopPlace:470195''" ascii_lib
        "net_const (JObj [(''results'', JList [])])"] m l1
  have r1: "resolve ascii_lib (net_const (JObj [(''results'', JList [])]))
              ''IDFM:monomodalStopPlace:470195'' = ([], Inr (''470195'', JStr []))"
    by simp
  from resolve_by_shape [of "''IDFM:999999''" ascii_lib
        "net_const (JObj [(''results'', JList [])])"] n p
  have r2: "fst (resolve ascii_lib (net_const (JObj [(''results'', JList [])])) ''IDFM:999999'')
              = [Stops_lookup (''arrid='' @ [CHR 0x22] @ last_component ''IDFM:999999'' @ [CHR 0x22])] \<and>
            snd (resolve ascii_lib (net_const (JObj [(''results'', JList [])])) ''IDFM:999999'')
              = Inr ([], JStr [])"
    by blast
  from m n r1 r2 show ?thesis unfolding l2 by simp
qed

subsection \<open>Resolve and probe\<close>



subsection \<open>Runs that end without a terminal signal\<close>

text \<open>
  C2. A body whose \<^verbatim>\<open>"Siri"\<close> member is \<^verbatim>\<open>null\<close> makes the subscript
  \<^verbatim>\<open>data["Siri"]["ServiceDelivery"]\<close> raise TypeError. The parser catches KeyError and
  IndexError, \<^verbatim>\<open>DepartureWorker.run\<close> catches RequestException, KeyError and ValueError:
  the exception leaves \<^verbatim>\<open>run\<close> and no signal at all is emitted. In the same way a catalog
  body that is a list makes \<^verbatim>\<open>data.get\<close> raise AttributeError in the resolver, and a catalog
  body whose \<^verbatim>\<open>results\<close> are a dict makes \<^verbatim>\<open>records[0]\<close> raise KeyError, which
  \<^verbatim>\<open>ResolveAndProbeWorker.run\<close> does not catch although \<^verbatim>\<open>DepartureWorker.run\<close> would.
\<close>

theorem terminal_signal_missing:
  "emitted (DepartureWorker_run ascii_lib (net_const (JObj [(''Siri'', JNull)]))
              [mk_fav ''50980'' ''Test'' ''C02000'' ''1'' []]) = [] \<and>
   uncaught (DepartureWorker_run ascii_lib (net_const (JObj [(''Siri'', JNull)]))
              [mk_fav ''50980'' ''Test'' ''C02000'' ''1'' []]) = Some TypeError \<and>
   rp_emitted (ResolveAndProbeWorker_run ascii_lib (net_const (JList [])) ''IDFM:423181'' ''C02000'')
     = [] \<and>
   rp_uncaught (ResolveAndProbeWorker_run ascii_lib (net_const (JList [])) ''IDFM:423181'' ''C02000'')
     = Some AttributeError \<and>
   rp_emitted (ResolveAndProbeWorker_run ascii_lib
                 (net_const (JObj [(''results'', JObj [(''a'', JNull)])])) ''IDFM:423181'' ''C02000'')
     = [] \<and>
   rp_uncaught (ResolveAndProbeWorker_run ascii_lib
                 (net_const (JObj [(''results'', JObj [(''a'', JNull)])])) ''IDFM:423181'' ''C02000'')
     = Some KeyError"
  by (simp add: DepartureWorker_run_def process_group_def group_favourites_def add_to_group_def mk_fav_def
      net_const_def parse_departures_def delivery_visits_def bindE_def
      ResolveAndProbeWorker_run_def resolve_def siri_request_def stops_request_def Let_def)

subsection \<open>The direction prober\<close>

text \<open>
  C8. The prober raises on some bodies. A body whose \<^verbatim>\<open>"Siri"\<close> member is \<^verbatim>\<open>null\<close> lacks
  the delivery structure, and the prober raises TypeError instead of returning the empty list.
  A visit whose \<^verbatim>\<open>DestinationName\<close> is a dict is taken as destination as it is, and the
  test \<^verbatim>\<open>dest not in destinations\<close> raises TypeError, a dict being unhashable; the parser of
  the departures replaces such a destination by \<^verbatim>\<open>"?"\<close>. In both cases the worker emits no
  signal.
\<close>

theorem probe_directions_raises:
  "probe_directions (net_const (JObj [(''Siri'', JNull)])) ''C02000'' ''50980'' = Inl TypeError \<and>
   probe_directions
     (net_const (siri_body [mk_visit (JObj [(''value'', JStr ''Nanterre'')]) ''1'' ''t1'']))
     ''C02000'' ''50980'' = Inl TypeError \<and>
   parse_departures ascii_lib
     (siri_body [mk_visit (JObj [(''value'', JStr ''Nanterre'')]) ''1'' ''t1'']) 0
     = Inr [\<lparr>dep_line_name = JStr ''259'', dep_line_id = JStr ''STIF:Line::C02000:'',
              destination = JStr ''?'', expected_iso = ''t1'', departure_status = JStr ''onTime'',
              vehicle_at_stop = JBool False, direction_ref = JStr ''1'', fetch_timestamp = 0,
              eta_seconds = 0\<rparr>] \<and>
   rp_emitted (ResolveAndProbeWorker_run ascii_lib (net_const (JObj [(''Siri'', JNull)]))
                 ''IDFM:monomodalStopPlace:43114'' ''C01742'') = []"
  by (simp add: probe_directions_def net_const_def delivery_visits_def bindE_def siri_body_def
      mk_visit_def probe_dest_def py_or_def parse_departures_def parse_visit_def decode_name_def
      eta_of_def str_or_empty_def ascii_lib_def replace_Z_def
      ResolveAndProbeWorker_run_def resolve_def last_component_def Let_def)

subsection \<open>The groups and their requests\<close>

lemma add_to_group_keys:
  "map fst (add_to_group g fav) =
     (if pair_of fav \<in> set (map fst g) then map fst g else map fst g @ [pair_of fav])"
  by (auto simp add: add_to_group_def Let_def update_keys pair_of_def dom_update)

lemma add_to_group_map_of:
  "map_of (add_to_group g fav) =
     (map_of g)(pair_of fav \<mapsto> (case map_of g (pair_of fav) of None \<Rightarrow> [] | Some fs \<Rightarrow> fs) @ [fav])"
proof (cases "pair_of fav \<in> set (map fst g)")
  case True
  then obtain fs where "map_of g (pair_of fav) = Some fs"
    by (metis image_set map_of_eq_None_iff not_Some_eq)
  with True show ?thesis
    by (simp add: add_to_group_def Let_def update_conv' pair_of_def)
next
  case False
  then have "map_of g (pair_of fav) = None"
    by (simp add: map_of_eq_None_iff)
  with False show ?thesis
    by (simp add: add_to_group_def Let_def update_conv' pair_of_def)
qed

lemma foldl_group_keys:
  "distinct (map fst g) \<Longrightarrow>
   distinct (map fst (foldl add_to_group g favs)) \<and>
   set (map fst (foldl add_to_group g favs)) = set (map fst g) \<union> pair_of ` set favs"
proof (induction favs arbitrary: g)
  case Nil
  then show ?case by simp
next
  case (Cons f favs)
  have d: "distinct (map fst (add_to_group g f))"
    using Cons.prems by (simp add: add_to_group_keys)
  from Cons.IH [OF d] show ?case
    by (force simp: add_to_group_keys split: if_splits)
qed

lemma foldl_group_map_of:
  "map_of (foldl add_to_group g favs) p =
     (if filter (\<lambda>f. pair_of f = p) favs = [] then map_of g p
      else Some ((case map_of g p of None \<Rightarrow> [] | Some fs \<Rightarrow> fs) @ filter (\<lambda>f. pair_of f = p) favs))"
proof (induction favs arbitrary: g)
  case Nil
  then show ?case by simp
next
  case (Cons f favs)
  show ?case
    by (simp add: Cons.IH add_to_group_map_of)
qed

lemma group_keys:
  "distinct (map fst (group_favourites favs)) \<and>
   set (map fst (group_favourites favs)) = pair_of ` set favs"
  using foldl_group_keys [of "[]" favs] by (simp add: group_favourites_def)

lemma group_members:
  "(p, fs) \<in> set (group_favourites favs) \<longleftrightarrow>
     fs = filter (\<lambda>f. pair_of f = p) favs \<and> fs \<noteq> []"
proof -
  have "(p, fs) \<in> set (group_favourites favs) \<longleftrightarrow> map_of (group_favourites favs) p = Some fs"
    using group_keys [of favs] by simp
  also have "\<dots> \<longleftrightarrow> fs = filter (\<lambda>f. pair_of f = p) favs \<and> fs \<noteq> []"
    using foldl_group_map_of [of "[]" favs p] by (auto simp: group_favourites_def)
  finally show ?thesis .
qed






lemma run_uncaught:
  "uncaught (DepartureWorker_run L net favs) =
   uncaught (process_groups L net (group_favourites favs)
               \<lparr>requests = [], emitted = [], results = [], uncaught = None\<rparr>)"
  by (simp add: DepartureWorker_run_def Let_def split: option.splits)






subsection \<open>The exceptions that can be raised\<close>

lemma get_method_exn: "get_method v k d = Inl e \<Longrightarrow> e = AttributeError"
  by (cases v) auto

lemma subscript_key_exn: "subscript_key v k = Inl e \<Longrightarrow> e = KeyError \<or> e = TypeError"
  by (cases v) (auto split: option.splits)

lemma subscript_0_exn: "subscript_0 v = Inl e \<Longrightarrow> e = IndexError \<or> e = KeyError \<or> e = TypeError"
  by (cases v rule: subscript_0.cases) auto

lemma iterate_exn: "iterate v = Inl e \<Longrightarrow> e = TypeError"
  by (cases v) auto

lemma bindE_Inl:
  "bindE m f = Inl e \<Longrightarrow> m = Inl e \<or> (\<exists>x. m = Inr x \<and> f x = Inl e)"
  by (cases m) (auto simp: bindE_def)

lemma mapE_exn: "mapE f xs = Inl e \<Longrightarrow> \<exists>x \<in> set xs. f x = Inl e"
  by (induction xs) (auto dest!: bindE_Inl)

lemma filterE_exn: "filterE p xs = Inl e \<Longrightarrow> \<exists>x \<in> set xs. p x = Inl e"
  by (induction xs) (auto dest!: bindE_Inl)

lemma matches_exn: "matches L fav d = Inl e \<Longrightarrow> e = AttributeError"
  by (cases "destination d") (auto simp: matches_def split: if_splits)

lemma subscript_0_list: "xs \<noteq> [] \<Longrightarrow> subscript_0 (JList xs) = Inr (hd xs)"
  by (cases xs) auto

lemma decode_name_exn: "decode_name dflt v = Inl e \<Longrightarrow> e = AttributeError"
  by (auto simp: decode_name_def Let_def subscript_0_list split: json.splits if_splits
      dest!: bindE_Inl dest: get_method_exn)

lemma eta_of_exn: "eta_of L ts v = Inl e \<Longrightarrow> e = AttributeError"
  by (auto simp: eta_of_def split: json.splits if_splits)

lemma delivery_visits_exn:
  "delivery_visits data = Inl e \<Longrightarrow> e \<noteq> ValueError \<and> e \<noteq> RequestException"
  unfolding delivery_visits_def
  by (auto dest!: bindE_Inl dest: get_method_exn subscript_key_exn subscript_0_exn)

lemma parse_visit_exn: "parse_visit L ts visit = Inl e \<Longrightarrow> e = AttributeError"
  unfolding parse_visit_def Let_def
  by (auto dest!: bindE_Inl dest: get_method_exn decode_name_exn eta_of_exn)

lemma parse_departures_exn:
  "parse_departures L data ts = Inl e \<Longrightarrow> e = TypeError \<or> e = AttributeError"
  unfolding parse_departures_def
  by (auto split: sum.splits if_splits
      dest!: bindE_Inl mapE_exn dest: iterate_exn parse_visit_exn delivery_visits_exn
        get_method_exn subscript_key_exn subscript_0_exn simp: delivery_visits_def)

lemma distribute_exn: "distribute L deps fs res = (Some e, res') \<Longrightarrow> e = AttributeError"
proof (induction fs arbitrary: res)
  case Nil
  then show ?case by simp
next
  case (Cons f fs)
  show ?case
  proof (cases "filterE (matches L f) deps")
    case (Inl e')
    with Cons.prems have "e = e'" by simp
    with Inl filterE_exn [of "matches L f" deps e'] matches_exn show ?thesis by blast
  next
    case (Inr m)
    with Cons.prems Cons.IH show ?thesis by simp
  qed
qed

lemma distribute_other_keys:
  "\<forall>f \<in> set fs. fav_key f \<noteq> k \<Longrightarrow> map_of (snd (distribute L deps fs res)) k = map_of res k"
proof (induction fs arbitrary: res)
  case Nil
  then show ?case by simp
next
  case (Cons f fs)
  then show ?case
    by (cases "filterE (matches L f) deps") (auto simp: update_conv')
qed

lemma distribute_distinct:
  "distinct (map fst res) \<Longrightarrow> distinct (map fst (snd (distribute L deps fs res)))"
proof (induction fs arbitrary: res)
  case Nil
  then show ?case by simp
next
  case (Cons f fs)
  then show ?case
    by (cases "filterE (matches L f) deps") (simp_all add: distinct_update)
qed

lemma distribute_last:
  "distribute L deps (xs @ f # ys) res = (None, res') \<Longrightarrow>
   \<forall>g \<in> set ys. fav_key g \<noteq> fav_key f \<Longrightarrow>
   \<exists>m. filterE (matches L f) deps = Inr m \<and> map_of res' (fav_key f) = Some (rank m)"
proof (induction xs arbitrary: res)
  case Nil
  from Nil.prems(1) obtain m where m: "filterE (matches L f) deps = Inr m"
    by (cases "filterE (matches L f) deps") auto
  with Nil.prems(1)
  have "distribute L deps ys (AList.update (fav_key f) (rank m) res) = (None, res')" by simp
  then have "res' = snd (distribute L deps ys (AList.update (fav_key f) (rank m) res))" by simp
  with distribute_other_keys [OF Nil.prems(2), of L deps "AList.update (fav_key f) (rank m) res"]
  have "map_of res' (fav_key f) = Some (rank m)" by (simp add: update_conv')
  with m show ?case by blast
next
  case (Cons x xs)
  from Cons.prems(1) obtain mx where mx: "filterE (matches L x) deps = Inr mx"
    by (cases "filterE (matches L x) deps") auto
  with Cons.prems(1)
  have "distribute L deps (xs @ f # ys) (AList.update (fav_key x) (rank mx) res) = (None, res')"
    by simp
  from Cons.IH [OF this Cons.prems(2)] show ?case .
qed

lemma process_group_other_keys:
  "\<forall>f \<in> set (snd g). fav_key f \<noteq> k \<Longrightarrow>
   map_of (results (process_group L net g st)) k = map_of (results st) k"
proof -
  assume a: "\<forall>f \<in> set (snd g). fav_key f \<noteq> k"
  obtain sa lid fs where g: "g = ((sa, lid), fs)" by (metis prod.collapse)
  have d: "map_of (snd (distribute L deps fs (results st))) k = map_of (results st) k" for deps
    using distribute_other_keys [of fs k L deps "results st"] a g by simp
  show ?thesis
  proof (cases "net (siri_request sa lid)")
    case Transport_failure
    then show ?thesis by (simp add: process_group_def g Let_def)
  next
    case (Payload ts data)
    show ?thesis
    proof (cases "parse_departures L data ts")
      case (Inl e)
      with Payload show ?thesis by (simp add: process_group_def g Let_def)
    next
      case (Inr deps)
      obtain r res where r: "distribute L deps fs (results st) = (r, res)" by (metis prod.collapse)
      with d [of deps] have "map_of res k = map_of (results st) k" by simp
      with Payload Inr r show ?thesis
        by (cases r) (simp_all add: process_group_def g Let_def)
    qed
  qed
qed

lemma process_group_distinct:
  "distinct (map fst (results st)) \<Longrightarrow> distinct (map fst (results (process_group L net g st)))"
proof -
  assume a: "distinct (map fst (results st))"
  obtain sa lid fs where g: "g = ((sa, lid), fs)" by (metis prod.collapse)
  show ?thesis
  proof (cases "net (siri_request sa lid)")
    case Transport_failure
    with a show ?thesis by (simp add: process_group_def g Let_def)
  next
    case (Payload ts data)
    show ?thesis
    proof (cases "parse_departures L data ts")
      case (Inl e)
      with a Payload show ?thesis by (simp add: process_group_def g Let_def)
    next
      case (Inr deps)
      obtain r res where r: "distribute L deps fs (results st) = (r, res)" by (metis prod.collapse)
      with distribute_distinct [OF a, of L deps fs] have "distinct (map fst res)" by simp
      with Payload Inr r show ?thesis
        by (cases r) (simp_all add: process_group_def g Let_def)
    qed
  qed
qed

lemma process_group_entry:
  assumes "net (siri_request (stop_area_id f) (line_id f)) = Payload ts data"
    and "\<forall>h \<in> set ys. fav_key h \<noteq> fav_key f"
    and "uncaught (process_group L net (pair_of f, xs @ f # ys) st) = None"
  shows "\<exists>deps m. parse_departures L data ts = Inr deps \<and>
           filterE (matches L f) deps = Inr m \<and>
           map_of (results (process_group L net (pair_of f, xs @ f # ys) st)) (fav_key f)
             = Some (rank m)"
proof (cases "parse_departures L data ts")
  case (Inl e)
  with parse_departures_exn [of L data ts e] have "e \<noteq> KeyError \<and> e \<noteq> ValueError" by auto
  with assms(1,3) Inl show ?thesis
    by (simp add: process_group_def pair_of_def Let_def)
next
  case (Inr deps)
  obtain r res where r: "distribute L deps (xs @ f # ys) (results st) = (r, res)"
    by (metis prod.collapse)
  show ?thesis
  proof (cases r)
    case None
    with r distribute_last [of L deps xs f ys "results st" res] assms(2)
    obtain m where "filterE (matches L f) deps = Inr m" "map_of res (fav_key f) = Some (rank m)"
      by blast
    with assms(1) Inr r None show ?thesis
      by (simp add: process_group_def pair_of_def Let_def)
  next
    case (Some e)
    with r distribute_exn have "e = AttributeError" by blast
    with assms(1,3) Inr r Some show ?thesis
      by (simp add: process_group_def pair_of_def Let_def)
  qed
qed

lemma process_groups_other_keys:
  "\<forall>g \<in> set gs. \<forall>f \<in> set (snd g). fav_key f \<noteq> k \<Longrightarrow>
   map_of (results (process_groups L net gs st)) k = map_of (results st) k"
proof (induction gs arbitrary: st)
  case Nil
  then show ?case by simp
next
  case (Cons g gs)
  then have a: "\<forall>f \<in> set (snd g). fav_key f \<noteq> k"
    and b: "\<forall>g \<in> set gs. \<forall>f \<in> set (snd g). fav_key f \<noteq> k" by simp_all
  show ?case
    using Cons.IH [OF b] process_group_other_keys [OF a]
    by (cases "uncaught (process_group L net g st)") simp_all
qed

lemma process_groups_distinct:
  "distinct (map fst (results st)) \<Longrightarrow> distinct (map fst (results (process_groups L net gs st)))"
proof (induction gs arbitrary: st)
  case Nil
  then show ?case by simp
next
  case (Cons g gs)
  from process_group_distinct [OF Cons.prems]
  have d: "distinct (map fst (results (process_group L net g st)))" .
  show ?case
    using Cons.IH [OF d] d
    by (cases "uncaught (process_group L net g st)") simp_all
qed

lemma process_groups_entry:
  assumes "(pair_of f, xs @ f # ys) \<in> set gs"
    and "distinct (map fst gs)"
    and "\<forall>h \<in> set ys. fav_key h \<noteq> fav_key f"
    and "\<forall>g \<in> set gs. fst g \<noteq> pair_of f \<longrightarrow> (\<forall>h \<in> set (snd g). fav_key h \<noteq> fav_key f)"
    and "net (siri_request (stop_area_id f) (line_id f)) = Payload ts data"
    and "uncaught (process_groups L net gs st) = None"
  shows "\<exists>deps m. parse_departures L data ts = Inr deps \<and>
           filterE (matches L f) deps = Inr m \<and>
           map_of (results (process_groups L net gs st)) (fav_key f) = Some (rank m)"
  using assms(1,2,4,6)
proof (induction gs arbitrary: st)
  case Nil
  then show ?case by simp
next
  case (Cons g gs)
  let ?st' = "process_group L net g st"
  from Cons.prems(4) have u: "uncaught ?st' = None"
    by (cases "uncaught ?st'") simp_all
  with Cons.prems(4) have u': "uncaught (process_groups L net gs ?st') = None" by simp
  have step: "process_groups L net (g # gs) st = process_groups L net gs ?st'"
    using u by simp
  show ?case
  proof (cases "g = (pair_of f, xs @ f # ys)")
    case True
    from process_group_entry [where L = L and xs = xs and st = st and net = net and f = f and ys = ys, OF assms(5) assms(3)] u True
    obtain deps m where dm: "parse_departures L data ts = Inr deps"
      "filterE (matches L f) deps = Inr m"
      "map_of (results ?st') (fav_key f) = Some (rank m)" by auto
    from Cons.prems(2) True have "\<forall>g' \<in> set gs. fst g' \<noteq> pair_of f" by force
    with Cons.prems(3) have "\<forall>g' \<in> set gs. \<forall>h \<in> set (snd g'). fav_key h \<noteq> fav_key f"
      by simp
    from process_groups_other_keys [OF this, of L net ?st'] dm(3)
    have "map_of (results (process_groups L net gs ?st')) (fav_key f) = Some (rank m)" by simp
    with dm step show ?thesis by auto
  next
    case False
    with Cons.prems(1) have m: "(pair_of f, xs @ f # ys) \<in> set gs" by simp
    from Cons.prems(2) have d: "distinct (map fst gs)" by simp
    from Cons.prems(3) have o: "\<forall>g \<in> set gs. fst g \<noteq> pair_of f \<longrightarrow>
        (\<forall>h \<in> set (snd g). fav_key h \<noteq> fav_key f)" by simp
    from Cons.IH [OF m d o u'] step show ?thesis by simp
  qed
qed

subsection \<open>The mapping of the terminal signal\<close>

lemma parse_mk_visit:
  "tm \<noteq> [] \<Longrightarrow> parse_visit ascii_lib 0 (mk_visit (named dest) dir tm) = Inr (seen dest dir tm)"
  by (simp add: parse_visit_def mk_visit_def named_def bindE_def decode_name_def py_or_def
      eta_of_def str_or_empty_def ascii_lib_def seen_def Let_def)

lemma parse_siri_body:
  "parse_departures L (siri_body vs) ts = mapE (parse_visit L ts) vs"
  by (simp add: parse_departures_def delivery_visits_def siri_body_def bindE_def)

lemma run_results:
  "results (DepartureWorker_run L net favs) =
   results (process_groups L net (group_favourites favs)
               \<lparr>requests = [], emitted = [], results = [], uncaught = None\<rparr>)"
  by (simp add: DepartureWorker_run_def Let_def split: option.splits)

lemma process_group_emitted_cases:
  "emitted (process_group L net g st) = emitted st \<or>
   emitted (process_group L net g st) = emitted st @ [Error Erreur_reseau] \<or>
   emitted (process_group L net g st) = emitted st @ [Error Erreur_donnees]"
  by (simp add: process_group_def Let_def
      split: prod.splits response.splits sum.splits option.splits)

lemma process_group_emitted:
  "\<exists>errs. emitted (process_group L net g st) = emitted st @ map Error errs"
proof -
  from process_group_emitted_cases [of L net g st]
  consider "emitted (process_group L net g st) = emitted st @ map Error []"
    | "emitted (process_group L net g st) = emitted st @ map Error [Erreur_reseau]"
    | "emitted (process_group L net g st) = emitted st @ map Error [Erreur_donnees]"
    by auto
  then show ?thesis by cases blast+
qed

lemma process_groups_emitted:
  "\<exists>errs. emitted (process_groups L net gs st) = emitted st @ map Error errs"
proof (induction gs arbitrary: st)
  case Nil
  have "emitted (process_groups L net [] st) = emitted st @ map Error []" by simp
  then show ?case by blast
next
  case (Cons g gs)
  let ?st' = "process_group L net g st"
  from process_group_emitted [of L net g st] obtain e1 where
    e1: "emitted ?st' = emitted st @ map Error e1" by blast
  show ?case
  proof (cases "uncaught ?st'")
    case None
    from Cons.IH [of ?st'] obtain e2 where
      "emitted (process_groups L net gs ?st') = emitted ?st' @ map Error e2" by blast
    with e1 None have "emitted (process_groups L net (g # gs) st)
        = emitted st @ map Error (e1 @ e2)" by simp
    then show ?thesis by blast
  next
    case (Some e)
    with e1 have "emitted (process_groups L net (g # gs) st) = emitted st @ map Error e1"
      by simp
    then show ?thesis by blast
  qed
qed

lemma run_emitted:
  "uncaught (DepartureWorker_run L net favs) = None \<Longrightarrow>
   \<exists>errs. emitted (DepartureWorker_run L net favs)
           = map Error errs @ [Finished (results (DepartureWorker_run L net favs))]"
proof -
  assume u: "uncaught (DepartureWorker_run L net favs) = None"
  let ?pg = "process_groups L net (group_favourites favs)
               \<lparr>requests = [], emitted = [], results = [], uncaught = None\<rparr>"
  from u have "uncaught ?pg = None"
    by (simp add: DepartureWorker_run_def Let_def split: option.splits)
  then have e: "emitted (DepartureWorker_run L net favs) = emitted ?pg @ [Finished (results ?pg)]"
    and r: "results (DepartureWorker_run L net favs) = results ?pg"
    by (simp_all add: DepartureWorker_run_def Let_def)
  from process_groups_emitted [of L net "group_favourites favs"
      "\<lparr>requests = [], emitted = [], results = [], uncaught = None\<rparr>"]
  obtain errs where "emitted ?pg = map Error errs" by auto
  with e r show ?thesis by auto
qed

lemma run_entry:
  assumes "favs = pre @ f # post"
    and "\<forall>g \<in> set post. fav_key g \<noteq> fav_key f"
    and "\<forall>g \<in> set favs. fav_key g = fav_key f \<longrightarrow> pair_of g = pair_of f"
    and "net (siri_request (stop_area_id f) (line_id f)) = Payload ts data"
    and "uncaught (DepartureWorker_run L net favs) = None"
  shows "\<exists>deps m. parse_departures L data ts = Inr deps \<and>
           filterE (matches L f) deps = Inr m \<and>
           map_of (results (DepartureWorker_run L net favs)) (fav_key f) = Some (rank m)"
proof -
  let ?gs = "group_favourites favs"
  let ?init = "\<lparr>requests = [], emitted = [], results = [], uncaught = None\<rparr>"
  let ?xs = "filter (\<lambda>h. pair_of h = pair_of f) pre"
  let ?ys = "filter (\<lambda>h. pair_of h = pair_of f) post"
  have fl: "filter (\<lambda>h. pair_of h = pair_of f) favs = ?xs @ f # ?ys"
    by (simp add: assms(1))
  then have mem: "(pair_of f, ?xs @ f # ?ys) \<in> set ?gs"
    using group_members [of "pair_of f" "?xs @ f # ?ys" favs] by simp
  have d: "distinct (map fst ?gs)" using group_keys [of favs] by blast
  have ys: "\<forall>h \<in> set ?ys. fav_key h \<noteq> fav_key f" using assms(2) by simp
  have others: "\<forall>g \<in> set ?gs. fst g \<noteq> pair_of f \<longrightarrow> (\<forall>h \<in> set (snd g). fav_key h \<noteq> fav_key f)"
  proof (intro ballI impI)
    fix g h assume g: "g \<in> set ?gs" and ne: "fst g \<noteq> pair_of f" and h: "h \<in> set (snd g)"
    from g have "(fst g, snd g) \<in> set ?gs" by simp
    then have "snd g = filter (\<lambda>h. pair_of h = fst g) favs"
      using group_members [of "fst g" "snd g" favs] by blast
    with h have "h \<in> set favs" "pair_of h = fst g" by auto
    with ne assms(3) show "fav_key h \<noteq> fav_key f" by auto
  qed
  have u: "uncaught (process_groups L net ?gs ?init) = None"
    using assms(5) by (simp add: run_uncaught)
  from process_groups_entry [where L = L and net = net and f = f and st = "?init",
      OF mem d ys others assms(4) u]
  show ?thesis by (simp add: run_results)
qed

lemma single_entry:
  "distinct (map fst xs) \<Longrightarrow> map_of xs k = Some v \<Longrightarrow> filter (\<lambda>kv. fst kv = k) xs = [(k, v)]"
proof (induction xs)
  case Nil
  then show ?case by simp
next
  case (Cons x xs)
  show ?case
  proof (cases "fst x = k")
    case True
    with Cons.prems have "k \<notin> fst ` set xs" "x = (k, v)" by auto
    then have "filter (\<lambda>kv. fst kv = k) xs = []" "x = (k, v)"
      by (auto simp: filter_empty_conv)
    with True show ?thesis by simp
  next
    case False
    with Cons show ?thesis by simp
  qed
qed

lemma run_distinct: "distinct (map fst (results (DepartureWorker_run L net favs)))"
  using process_groups_distinct [of "\<lparr>requests = [], emitted = [], results = [], uncaught = None\<rparr>"
      L net "group_favourites favs"]
  by (simp add: run_results)

lemma mk_fav_sel:
  "stop_area_id (mk_fav sa sn lid dir dest) = sa"
  "stop_name (mk_fav sa sn lid dir dest) = sn"
  "line_id (mk_fav sa sn lid dir dest) = lid"
  "direction (mk_fav sa sn lid dir dest) = dir"
  "destination_name (mk_fav sa sn lid dir dest) = dest"
  by (simp_all add: mk_fav_def)

lemma seen_sel:
  "expected_iso (seen dest dir tm) = tm"
  "destination (seen dest dir tm) = JStr dest"
  "direction_ref (seen dest dir tm) = JStr dir"
  "eta_seconds (seen dest dir tm) = 0"
  by (simp_all add: seen_def)

lemmas run_eval =
  DepartureWorker_run_def process_group_def group_favourites_def add_to_group_def
  net_const_def fav_key_def siri_request_def rank_def Let_def mk_fav_sel seen_sel

lemmas filter_eval =
  matches_def mk_fav_sel seen_sel bindE_def ascii_lib_def ascii_lower_def normalize_def
  strip_def collapse_seps_def is_sep_def is_space_def is_same_place_def


lemma rank_sub: "mset (rank matched) \<subseteq># mset matched"
  using rank_mset [of matched] by (metis mset_subset_eq_add_left)

lemma rank_rest_later:
  "\<forall>x \<in> set (rank matched). \<forall>y \<in># mset matched - mset (rank matched).
     expected_iso x \<le> expected_iso y"
proof -
  have "mset matched - mset (rank matched) = mset (drop 5 (sort_key expected_iso matched))"
    using rank_mset [of matched] by (metis add_diff_cancel_left')
  then show ?thesis using rank_earliest [of matched] by simp
qed

subsection \<open>One request for each pair\<close>



subsection \<open>The list emitted for a favourite\<close>

text \<open>
  C5, as the code has it. The mapping that the terminal signal carries is keyed by stop area,
  line and direction, and a favourite's list is stored under that key: when two favourites
  have the same key, the list of the one processed first is replaced. Below, the first
  favourite keeps six departures to Paris and the second one departure to Lyon; the list
  emitted under their common key is the second's, of length one, not the five earliest of the
  six.
\<close>

theorem emitted_list_overwritten:
  "filterE (matches ascii_lib (mk_fav ''50980'' ''Test'' ''C02000'' ''1'' ''Paris''))
     [seen ''Paris'' ''1'' ''T6'', seen ''Paris'' ''1'' ''T3'', seen ''Paris'' ''1'' ''T5'',
      seen ''Paris'' ''1'' ''T1'', seen ''Paris'' ''1'' ''T4'', seen ''Paris'' ''1'' ''T2'',
      seen ''Lyon'' ''1'' ''T7'']
     = Inr [seen ''Paris'' ''1'' ''T6'', seen ''Paris'' ''1'' ''T3'', seen ''Paris'' ''1'' ''T5'',
            seen ''Paris'' ''1'' ''T1'', seen ''Paris'' ''1'' ''T4'', seen ''Paris'' ''1'' ''T2''] \<and>
   parse_departures ascii_lib
     (siri_body [mk_visit (named ''Paris'') ''1'' ''T6'', mk_visit (named ''Paris'') ''1'' ''T3'',
        mk_visit (named ''Paris'') ''1'' ''T5'', mk_visit (named ''Paris'') ''1'' ''T1'',
        mk_visit (named ''Paris'') ''1'' ''T4'', mk_visit (named ''Paris'') ''1'' ''T2'',
        mk_visit (named ''Lyon'') ''1'' ''T7'']) 0
     = Inr [seen ''Paris'' ''1'' ''T6'', seen ''Paris'' ''1'' ''T3'', seen ''Paris'' ''1'' ''T5'',
            seen ''Paris'' ''1'' ''T1'', seen ''Paris'' ''1'' ''T4'', seen ''Paris'' ''1'' ''T2'',
            seen ''Lyon'' ''1'' ''T7''] \<and>
   emitted (DepartureWorker_run ascii_lib
     (net_const (siri_body [mk_visit (named ''Paris'') ''1'' ''T6'', mk_visit (named ''Paris'') ''1'' ''T3'',
        mk_visit (named ''Paris'') ''1'' ''T5'', mk_visit (named ''Paris'') ''1'' ''T1'',
        mk_visit (named ''Paris'') ''1'' ''T4'', mk_visit (named ''Paris'') ''1'' ''T2'',
        mk_visit (named ''Lyon'') ''1'' ''T7'']))
     [mk_fav ''50980'' ''Test'' ''C02000'' ''1'' ''Paris'',
      mk_fav ''50980'' ''Test'' ''C02000'' ''1'' ''Lyon''])
     = [Finished [(''50980_C02000_1'', [seen ''Lyon'' ''1'' ''T7''])]] \<and>
   fav_key (mk_fav ''50980'' ''Test'' ''C02000'' ''1'' ''Paris'') = ''50980_C02000_1''"
proof -
  let ?deps = "[seen ''Paris'' ''1'' ''T6'', seen ''Paris'' ''1'' ''T3'', seen ''Paris'' ''1'' ''T5'',
      seen ''Paris'' ''1'' ''T1'', seen ''Paris'' ''1'' ''T4'', seen ''Paris'' ''1'' ''T2'',
      seen ''Lyon'' ''1'' ''T7'']"
  have p: "parse_departures ascii_lib
     (siri_body [mk_visit (named ''Paris'') ''1'' ''T6'', mk_visit (named ''Paris'') ''1'' ''T3'',
        mk_visit (named ''Paris'') ''1'' ''T5'', mk_visit (named ''Paris'') ''1'' ''T1'',
        mk_visit (named ''Paris'') ''1'' ''T4'', mk_visit (named ''Paris'') ''1'' ''T2'',
        mk_visit (named ''Lyon'') ''1'' ''T7'']) 0 = Inr ?deps"
    by (simp add: parse_siri_body parse_mk_visit bindE_def)
  have fa: "filterE (matches ascii_lib (mk_fav ''50980'' ''Test'' ''C02000'' ''1'' ''Paris'')) ?deps
     = Inr [seen ''Paris'' ''1'' ''T6'', seen ''Paris'' ''1'' ''T3'', seen ''Paris'' ''1'' ''T5'',
            seen ''Paris'' ''1'' ''T1'', seen ''Paris'' ''1'' ''T4'', seen ''Paris'' ''1'' ''T2'']"
    by (simp add: filter_eval)
  have fb: "filterE (matches ascii_lib (mk_fav ''50980'' ''Test'' ''C02000'' ''1'' ''Lyon'')) ?deps
     = Inr [seen ''Lyon'' ''1'' ''T7'']"
    by (simp add: filter_eval)
  have e: "emitted (DepartureWorker_run ascii_lib
     (net_const (siri_body [mk_visit (named ''Paris'') ''1'' ''T6'', mk_visit (named ''Paris'') ''1'' ''T3'',
        mk_visit (named ''Paris'') ''1'' ''T5'', mk_visit (named ''Paris'') ''1'' ''T1'',
        mk_visit (named ''Paris'') ''1'' ''T4'', mk_visit (named ''Paris'') ''1'' ''T2'',
        mk_visit (named ''Lyon'') ''1'' ''T7'']))
     [mk_fav ''50980'' ''Test'' ''C02000'' ''1'' ''Paris'',
      mk_fav ''50980'' ''Test'' ''C02000'' ''1'' ''Lyon''])
     = [Finished [(''50980_C02000_1'', [seen ''Lyon'' ''1'' ''T7''])]]"
    by (simp add: run_eval p fa fb del: filterE.simps)
  have k: "fav_key (mk_fav ''50980'' ''Test'' ''C02000'' ''1'' ''Paris'') = ''50980_C02000_1''"
    by (simp add: fav_key_def mk_fav_sel)
  from p fa e k show ?thesis by blast
qed


text \<open>
  C5, amended. Let \<open>f\<close> be a favourite that is the last of the input with its key, no favourite
  of another stop area or line having the same key, and let the live-feed request of its stop
  area and line be answered by a body. In a run that reaches its terminal signal, the body
  parses, the filter of \<open>f\<close> keeps some list \<open>matched\<close>, and the mapping carried by the terminal
  signal holds under the key of \<open>f\<close> a list that is sorted in ascending order of the
  expected-time string, has the length \<open>min (length matched) 5\<close> and holds the earliest of
  \<open>matched\<close>: every departure of \<open>matched\<close> left out has an expected time that is not smaller
  than any in the list. With 8 departures kept the list has exactly 5.
\<close>

theorem emitted_list_ranked:
  assumes "favs = pre @ f # post"
    and "\<forall>g \<in> set post.
           stop_area_id g @ ''_'' @ line_id g @ ''_'' @ direction g
             \<noteq> stop_area_id f @ ''_'' @ line_id f @ ''_'' @ direction f"
    and "\<forall>g \<in> set favs.
           stop_area_id g @ ''_'' @ line_id g @ ''_'' @ direction g
             = stop_area_id f @ ''_'' @ line_id f @ ''_'' @ direction f
           \<longrightarrow> stop_area_id g = stop_area_id f \<and> line_id g = line_id f"
    and "net (Stop_monitoring (''STIF:StopArea:SP:'' @ stop_area_id f @ '':'')
                              (''STIF:Line::'' @ line_id f @ '':'')) = Payload ts data"
    and "uncaught (DepartureWorker_run L net favs) = None"
  shows "\<exists>deps matched lst errs.
           parse_departures L data ts = Inr deps \<and>
           filterE (matches L f) deps = Inr matched \<and>
           emitted (DepartureWorker_run L net favs)
             = map Error errs @ [Finished (results (DepartureWorker_run L net favs))] \<and>
           map_of (results (DepartureWorker_run L net favs))
             (stop_area_id f @ ''_'' @ line_id f @ ''_'' @ direction f) = Some lst \<and>
           sorted (map expected_iso lst) \<and>
           length lst = min (length matched) 5 \<and>
           mset lst \<subseteq># mset matched \<and>
           (\<forall>x \<in> set lst. \<forall>y \<in># mset matched - mset lst. expected_iso x \<le> expected_iso y) \<and>
           (length matched = 8 \<longrightarrow> length lst = 5)"
proof -
  have a2: "\<forall>g \<in> set post. fav_key g \<noteq> fav_key f"
    using assms(2) by (simp add: fav_key_def)
  have a3: "\<forall>g \<in> set favs. fav_key g = fav_key f \<longrightarrow> pair_of g = pair_of f"
    using assms(3) by (simp add: fav_key_def pair_of_def)
  have a4: "net (siri_request (stop_area_id f) (line_id f)) = Payload ts data"
    using assms(4) by (simp add: siri_request_def)
  from run_entry [OF assms(1) a2 a3 a4 assms(5)]
  obtain deps m where dm: "parse_departures L data ts = Inr deps"
    "filterE (matches L f) deps = Inr m"
    "map_of (results (DepartureWorker_run L net favs)) (fav_key f) = Some (rank m)" by blast
  from run_emitted [OF assms(5)] obtain errs where
    sg: "emitted (DepartureWorker_run L net favs)
           = map Error errs @ [Finished (results (DepartureWorker_run L net favs))]" by blast
  have k: "map_of (results (DepartureWorker_run L net favs))
             (stop_area_id f @ ''_'' @ line_id f @ ''_'' @ direction f) = Some (rank m)"
    using dm(3) by (simp add: fav_key_def)
  have props: "sorted (map expected_iso (rank m)) \<and>
           length (rank m) = min (length m) 5 \<and>
           mset (rank m) \<subseteq># mset m \<and>
           (\<forall>x \<in> set (rank m). \<forall>y \<in># mset m - mset (rank m). expected_iso x \<le> expected_iso y) \<and>
           (length m = 8 \<longrightarrow> length (rank m) = 5)"
    using sorted_rank [of m] length_rank [of m] rank_sub [of m] rank_rest_later [of m] by simp
  from dm(1,2) sg k props show ?thesis by blast
qed

theorem emitted_list_ranked_witness:
  "uncaught (DepartureWorker_run ascii_lib
     (net_const (siri_body [mk_visit (named ''Lyon'') ''1'' ''T8'', mk_visit (named ''Lyon'') ''1'' ''T3'',
        mk_visit (named ''Lyon'') ''1'' ''T6'', mk_visit (named ''Lyon'') ''1'' ''T1'',
        mk_visit (named ''Paris'') ''1'' ''T0'', mk_visit (named ''Lyon'') ''1'' ''T7'',
        mk_visit (named ''Lyon'') ''1'' ''T2'', mk_visit (named ''Lyon'') ''1'' ''T5'',
        mk_visit (named ''Lyon'') ''1'' ''T4'']))
     [mk_fav ''50980'' ''Test'' ''C02000'' ''1'' ''Paris'',
      mk_fav ''50980'' ''Test'' ''C02000'' ''1'' ''Lyon'']) = None \<and>
   emitted (DepartureWorker_run ascii_lib
     (net_const (siri_body [mk_visit (named ''Lyon'') ''1'' ''T8'', mk_visit (named ''Lyon'') ''1'' ''T3'',
        mk_visit (named ''Lyon'') ''1'' ''T6'', mk_visit (named ''Lyon'') ''1'' ''T1'',
        mk_visit (named ''Paris'') ''1'' ''T0'', mk_visit (named ''Lyon'') ''1'' ''T7'',
        mk_visit (named ''Lyon'') ''1'' ''T2'', mk_visit (named ''Lyon'') ''1'' ''T5'',
        mk_visit (named ''Lyon'') ''1'' ''T4'']))
     [mk_fav ''50980'' ''Test'' ''C02000'' ''1'' ''Paris'',
      mk_fav ''50980'' ''Test'' ''C02000'' ''1'' ''Lyon''])
     = [Finished [(''50980_C02000_1'',
          [seen ''Lyon'' ''1'' ''T1'', seen ''Lyon'' ''1'' ''T2'', seen ''Lyon'' ''1'' ''T3'',
           seen ''Lyon'' ''1'' ''T4'', seen ''Lyon'' ''1'' ''T5''])]] \<and>
   (\<exists>lst. map_of (results (DepartureWorker_run ascii_lib
     (net_const (siri_body [mk_visit (named ''Lyon'') ''1'' ''T8'', mk_visit (named ''Lyon'') ''1'' ''T3'',
        mk_visit (named ''Lyon'') ''1'' ''T6'', mk_visit (named ''Lyon'') ''1'' ''T1'',
        mk_visit (named ''Paris'') ''1'' ''T0'', mk_visit (named ''Lyon'') ''1'' ''T7'',
        mk_visit (named ''Lyon'') ''1'' ''T2'', mk_visit (named ''Lyon'') ''1'' ''T5'',
        mk_visit (named ''Lyon'') ''1'' ''T4'']))
     [mk_fav ''50980'' ''Test'' ''C02000'' ''1'' ''Paris'',
      mk_fav ''50980'' ''Test'' ''C02000'' ''1'' ''Lyon''])) ''50980_C02000_1'' = Some lst \<and>
     sorted (map expected_iso lst) \<and> length lst = 5)"
proof -
  let ?body = "siri_body [mk_visit (named ''Lyon'') ''1'' ''T8'', mk_visit (named ''Lyon'') ''1'' ''T3'',
        mk_visit (named ''Lyon'') ''1'' ''T6'', mk_visit (named ''Lyon'') ''1'' ''T1'',
        mk_visit (named ''Paris'') ''1'' ''T0'', mk_visit (named ''Lyon'') ''1'' ''T7'',
        mk_visit (named ''Lyon'') ''1'' ''T2'', mk_visit (named ''Lyon'') ''1'' ''T5'',
        mk_visit (named ''Lyon'') ''1'' ''T4'']"
  let ?deps = "[seen ''Lyon'' ''1'' ''T8'', seen ''Lyon'' ''1'' ''T3'', seen ''Lyon'' ''1'' ''T6'',
        seen ''Lyon'' ''1'' ''T1'', seen ''Paris'' ''1'' ''T0'', seen ''Lyon'' ''1'' ''T7'',
        seen ''Lyon'' ''1'' ''T2'', seen ''Lyon'' ''1'' ''T5'', seen ''Lyon'' ''1'' ''T4'']"
  let ?eight = "[seen ''Lyon'' ''1'' ''T8'', seen ''Lyon'' ''1'' ''T3'', seen ''Lyon'' ''1'' ''T6'',
        seen ''Lyon'' ''1'' ''T1'', seen ''Lyon'' ''1'' ''T7'',
        seen ''Lyon'' ''1'' ''T2'', seen ''Lyon'' ''1'' ''T5'', seen ''Lyon'' ''1'' ''T4'']"
  let ?fa = "mk_fav ''50980'' ''Test'' ''C02000'' ''1'' ''Paris''"
  let ?fb = "mk_fav ''50980'' ''Test'' ''C02000'' ''1'' ''Lyon''"
  let ?run = "DepartureWorker_run ascii_lib (net_const ?body) [?fa, ?fb]"
  have p: "parse_departures ascii_lib ?body 0 = Inr ?deps"
    by (simp add: parse_siri_body parse_mk_visit bindE_def)
  have fa: "filterE (matches ascii_lib ?fa) ?deps = Inr [seen ''Paris'' ''1'' ''T0'']"
    by (simp add: filter_eval)
  have fb: "filterE (matches ascii_lib ?fb) ?deps = Inr ?eight"
    by (simp add: filter_eval)
  have u: "uncaught ?run = None"
    by (simp add: run_eval p fa fb del: filterE.simps)
  have e: "emitted ?run = [Finished [(''50980_C02000_1'',
          [seen ''Lyon'' ''1'' ''T1'', seen ''Lyon'' ''1'' ''T2'', seen ''Lyon'' ''1'' ''T3'',
           seen ''Lyon'' ''1'' ''T4'', seen ''Lyon'' ''1'' ''T5''])]]"
    by (simp add: run_eval p fa fb del: filterE.simps)
  have h1: "[?fa, ?fb] = [?fa] @ ?fb # []" by simp
  have h2: "\<forall>g \<in> set [].
           stop_area_id g @ ''_'' @ line_id g @ ''_'' @ direction g
             \<noteq> stop_area_id ?fb @ ''_'' @ line_id ?fb @ ''_'' @ direction ?fb" by simp
  have h3: "\<forall>g \<in> set [?fa, ?fb].
           stop_area_id g @ ''_'' @ line_id g @ ''_'' @ direction g
             = stop_area_id ?fb @ ''_'' @ line_id ?fb @ ''_'' @ direction ?fb
           \<longrightarrow> stop_area_id g = stop_area_id ?fb \<and> line_id g = line_id ?fb"
    by (simp add: mk_fav_sel)
  have h4: "net_const ?body (Stop_monitoring (''STIF:StopArea:SP:'' @ stop_area_id ?fb @ '':'')
                              (''STIF:Line::'' @ line_id ?fb @ '':'')) = Payload 0 ?body"
    by (simp add: net_const_def)
  from emitted_list_ranked [OF h1 h2 h3 h4 u]
  obtain deps matched lst where r: "parse_departures ascii_lib ?body 0 = Inr deps"
    "filterE (matches ascii_lib ?fb) deps = Inr matched"
    "map_of (results ?run)
       (stop_area_id ?fb @ ''_'' @ line_id ?fb @ ''_'' @ direction ?fb) = Some lst"
    "sorted (map expected_iso lst)" "length matched = 8 \<longrightarrow> length lst = 5" by blast
  from r(1) p have "deps = ?deps" by simp
  with r(2) fb have "matched = ?eight" by simp
  with r(5) have "length lst = 5" by simp
  moreover from r(3) have "map_of (results ?run) ''50980_C02000_1'' = Some lst"
    by (simp add: mk_fav_sel)
  ultimately have "\<exists>lst. map_of (results ?run) ''50980_C02000_1'' = Some lst \<and>
     sorted (map expected_iso lst) \<and> length lst = 5" using r(4) by blast
  with u e show ?thesis by blast
qed

subsection \<open>Favourites that share a key\<close>

text \<open>
  C10, as the code has it. When the live-feed request of the group meets a transport failure,
  the mapping of the terminal signal has no entry at all under the key of the two favourites.
  When a third favourite with the same stop area, line and direction follows the two, the
  entry holds its list, not the list of the later of the two. And the key is a string: a
  favourite of another stop area and line may have the same one (stop area \<^verbatim>\<open>1\<close> with line
  \<^verbatim>\<open>2_3\<close>, stop area \<^verbatim>\<open>1_2\<close> with line \<^verbatim>\<open>3\<close>); processed later, it replaces the
  entry, which then holds the list of neither of the two.
\<close>

theorem shared_key_entry_missing:
  "emitted (DepartureWorker_run ascii_lib net_down
     [mk_fav ''50980'' ''Test'' ''C02000'' ''1'' ''Paris'',
      mk_fav ''50980'' ''Test'' ''C02000'' ''1'' ''Lyon''])
     = [Error Erreur_reseau, Finished []] \<and>
   map_of (results (DepartureWorker_run ascii_lib net_down
     [mk_fav ''50980'' ''Test'' ''C02000'' ''1'' ''Paris'',
      mk_fav ''50980'' ''Test'' ''C02000'' ''1'' ''Lyon''])) ''50980_C02000_1'' = None \<and>
   emitted (DepartureWorker_run ascii_lib
     (net_const (siri_body [mk_visit (named ''Paris'') ''1'' ''T1'',
        mk_visit (named ''Lyon'') ''1'' ''T2'', mk_visit (named ''Nice'') ''1'' ''T3'']))
     [mk_fav ''50980'' ''Test'' ''C02000'' ''1'' ''Paris'',
      mk_fav ''50980'' ''Test'' ''C02000'' ''1'' ''Lyon'',
      mk_fav ''50980'' ''Test'' ''C02000'' ''1'' ''Nice''])
     = [Finished [(''50980_C02000_1'', [seen ''Nice'' ''1'' ''T3''])]] \<and>
   filterE (matches ascii_lib (mk_fav ''50980'' ''Test'' ''C02000'' ''1'' ''Lyon''))
     [seen ''Paris'' ''1'' ''T1'', seen ''Lyon'' ''1'' ''T2'', seen ''Nice'' ''1'' ''T3'']
     = Inr [seen ''Lyon'' ''1'' ''T2''] \<and>
   emitted (DepartureWorker_run ascii_lib
     (net_const (siri_body [mk_visit (named ''Paris'') ''1'' ''T1'',
        mk_visit (named ''Lyon'') ''1'' ''T2'', mk_visit (named ''Nice'') ''1'' ''T3'']))
     [mk_fav ''1'' ''Test'' ''2_3'' ''1'' ''Paris'', mk_fav ''1'' ''Test'' ''2_3'' ''1'' ''Lyon'',
      mk_fav ''1_2'' ''Test'' ''3'' ''1'' ''Nice''])
     = [Finished [(''1_2_3_1'', [seen ''Nice'' ''1'' ''T3''])]] \<and>
   fav_key (mk_fav ''1'' ''Test'' ''2_3'' ''1'' ''Lyon'') = ''1_2_3_1'' \<and>
   filterE (matches ascii_lib (mk_fav ''1'' ''Test'' ''2_3'' ''1'' ''Paris''))
     [seen ''Paris'' ''1'' ''T1'', seen ''Lyon'' ''1'' ''T2'', seen ''Nice'' ''1'' ''T3'']
     = Inr [seen ''Paris'' ''1'' ''T1''] \<and>
   filterE (matches ascii_lib (mk_fav ''1'' ''Test'' ''2_3'' ''1'' ''Lyon''))
     [seen ''Paris'' ''1'' ''T1'', seen ''Lyon'' ''1'' ''T2'', seen ''Nice'' ''1'' ''T3'']
     = Inr [seen ''Lyon'' ''1'' ''T2'']"
proof -
  let ?deps = "[seen ''Paris'' ''1'' ''T1'', seen ''Lyon'' ''1'' ''T2'', seen ''Nice'' ''1'' ''T3'']"
  have d: "emitted (DepartureWorker_run ascii_lib net_down
     [mk_fav ''50980'' ''Test'' ''C02000'' ''1'' ''Paris'',
      mk_fav ''50980'' ''Test'' ''C02000'' ''1'' ''Lyon''])
     = [Error Erreur_reseau, Finished []]"
    by (simp add: run_eval net_down_def)
  have n: "map_of (results (DepartureWorker_run ascii_lib net_down
     [mk_fav ''50980'' ''Test'' ''C02000'' ''1'' ''Paris'',
      mk_fav ''50980'' ''Test'' ''C02000'' ''1'' ''Lyon''])) ''50980_C02000_1'' = None"
    by (simp add: run_eval net_down_def)
  have p: "parse_departures ascii_lib
     (siri_body [mk_visit (named ''Paris'') ''1'' ''T1'',
        mk_visit (named ''Lyon'') ''1'' ''T2'', mk_visit (named ''Nice'') ''1'' ''T3'']) 0 = Inr ?deps"
    by (simp add: parse_siri_body parse_mk_visit bindE_def)
  have ga: "filterE (matches ascii_lib (mk_fav ''50980'' ''Test'' ''C02000'' ''1'' ''Paris'')) ?deps
     = Inr [seen ''Paris'' ''1'' ''T1'']"
    by (simp add: filter_eval)
  have gb: "filterE (matches ascii_lib (mk_fav ''50980'' ''Test'' ''C02000'' ''1'' ''Lyon'')) ?deps
     = Inr [seen ''Lyon'' ''1'' ''T2'']"
    by (simp add: filter_eval)
  have gc: "filterE (matches ascii_lib (mk_fav ''50980'' ''Test'' ''C02000'' ''1'' ''Nice'')) ?deps
     = Inr [seen ''Nice'' ''1'' ''T3'']"
    by (simp add: filter_eval)
  have t: "emitted (DepartureWorker_run ascii_lib
     (net_const (siri_body [mk_visit (named ''Paris'') ''1'' ''T1'',
        mk_visit (named ''Lyon'') ''1'' ''T2'', mk_visit (named ''Nice'') ''1'' ''T3'']))
     [mk_fav ''50980'' ''Test'' ''C02000'' ''1'' ''Paris'',
      mk_fav ''50980'' ''Test'' ''C02000'' ''1'' ''Lyon'',
      mk_fav ''50980'' ''Test'' ''C02000'' ''1'' ''Nice''])
     = [Finished [(''50980_C02000_1'', [seen ''Nice'' ''1'' ''T3''])]]"
    by (simp add: run_eval p ga gb gc del: filterE.simps)
  have fa: "filterE (matches ascii_lib (mk_fav ''1'' ''Test'' ''2_3'' ''1'' ''Paris'')) ?deps
     = Inr [seen ''Paris'' ''1'' ''T1'']"
    by (simp add: filter_eval)
  have fb: "filterE (matches ascii_lib (mk_fav ''1'' ''Test'' ''2_3'' ''1'' ''Lyon'')) ?deps
     = Inr [seen ''Lyon'' ''1'' ''T2'']"
    by (simp add: filter_eval)
  have fc: "filterE (matches ascii_lib (mk_fav ''1_2'' ''Test'' ''3'' ''1'' ''Nice'')) ?deps
     = Inr [seen ''Nice'' ''1'' ''T3'']"
    by (simp add: filter_eval)
  have e: "emitted (DepartureWorker_run ascii_lib
     (net_const (siri_body [mk_visit (named ''Paris'') ''1'' ''T1'',
        mk_visit (named ''Lyon'') ''1'' ''T2'', mk_visit (named ''Nice'') ''1'' ''T3'']))
     [mk_fav ''1'' ''Test'' ''2_3'' ''1'' ''Paris'', mk_fav ''1'' ''Test'' ''2_3'' ''1'' ''Lyon'',
      mk_fav ''1_2'' ''Test'' ''3'' ''1'' ''Nice''])
     = [Finished [(''1_2_3_1'', [seen ''Nice'' ''1'' ''T3''])]]"
    by (simp add: run_eval p fa fb fc del: filterE.simps)
  have k: "fav_key (mk_fav ''1'' ''Test'' ''2_3'' ''1'' ''Lyon'') = ''1_2_3_1''"
    by (simp add: fav_key_def mk_fav_sel)
  from d n t gb e k fa fb show ?thesis by blast
qed

text \<open>
  C10, amended. Let two favourites of the input share stop area, line and direction, the second
  being the last favourite of the input with their key, and no favourite of another stop area
  or line having that key. When the live-feed request of their stop area and line is answered
  by a body, in a run that reaches its terminal signal, the mapping carried by that signal has
  exactly one entry under their key, and it holds the list of the second favourite: what its
  filter keeps, sorted by expected time and cut to five. The list of the first favourite is
  not in the mapping unless it is the same list.
\<close>

theorem shared_key_last_wins:
  assumes "favs = pre @ f1 # mid @ f2 # post"
    and "stop_area_id f1 = stop_area_id f2"
    and "line_id f1 = line_id f2"
    and "direction f1 = direction f2"
    and "\<forall>g \<in> set post.
           stop_area_id g @ ''_'' @ line_id g @ ''_'' @ direction g
             \<noteq> stop_area_id f2 @ ''_'' @ line_id f2 @ ''_'' @ direction f2"
    and "\<forall>g \<in> set favs.
           stop_area_id g @ ''_'' @ line_id g @ ''_'' @ direction g
             = stop_area_id f2 @ ''_'' @ line_id f2 @ ''_'' @ direction f2
           \<longrightarrow> stop_area_id g = stop_area_id f2 \<and> line_id g = line_id f2"
    and "net (Stop_monitoring (''STIF:StopArea:SP:'' @ stop_area_id f2 @ '':'')
                              (''STIF:Line::'' @ line_id f2 @ '':'')) = Payload ts data"
    and "uncaught (DepartureWorker_run L net favs) = None"
  shows "\<exists>deps m2 errs.
           parse_departures L data ts = Inr deps \<and>
           filterE (matches L f2) deps = Inr m2 \<and>
           emitted (DepartureWorker_run L net favs)
             = map Error errs @ [Finished (results (DepartureWorker_run L net favs))] \<and>
           filter (\<lambda>kv. fst kv = stop_area_id f1 @ ''_'' @ line_id f1 @ ''_'' @ direction f1)
                  (results (DepartureWorker_run L net favs))
             = [(stop_area_id f1 @ ''_'' @ line_id f1 @ ''_'' @ direction f1,
                 take 5 (sort_key expected_iso m2))]"
proof -
  have h1: "favs = (pre @ f1 # mid) @ f2 # post" using assms(1) by simp
  have a2: "\<forall>g \<in> set post. fav_key g \<noteq> fav_key f2"
    using assms(5) by (simp add: fav_key_def)
  have a3: "\<forall>g \<in> set favs. fav_key g = fav_key f2 \<longrightarrow> pair_of g = pair_of f2"
    using assms(6) by (simp add: fav_key_def pair_of_def)
  have a4: "net (siri_request (stop_area_id f2) (line_id f2)) = Payload ts data"
    using assms(7) by (simp add: siri_request_def)
  from run_entry [OF h1 a2 a3 a4 assms(8)]
  obtain deps m where dm: "parse_departures L data ts = Inr deps"
    "filterE (matches L f2) deps = Inr m"
    "map_of (results (DepartureWorker_run L net favs)) (fav_key f2) = Some (rank m)" by blast
  from run_emitted [OF assms(8)] obtain errs where
    sg: "emitted (DepartureWorker_run L net favs)
           = map Error errs @ [Finished (results (DepartureWorker_run L net favs))]" by blast
  from single_entry [OF run_distinct dm(3)]
  have "filter (\<lambda>kv. fst kv = fav_key f2) (results (DepartureWorker_run L net favs))
          = [(fav_key f2, rank m)]" .
  then have "filter (\<lambda>kv. fst kv = stop_area_id f1 @ ''_'' @ line_id f1 @ ''_'' @ direction f1)
                  (results (DepartureWorker_run L net favs))
             = [(stop_area_id f1 @ ''_'' @ line_id f1 @ ''_'' @ direction f1,
                 take 5 (sort_key expected_iso m))]"
    using assms(2,3,4) by (simp add: fav_key_def rank_def)
  with dm(1,2) sg show ?thesis by blast
qed

theorem shared_key_last_wins_witness:
  "uncaught (DepartureWorker_run ascii_lib
     (net_const (siri_body [mk_visit (named ''Paris'') ''1'' ''T3'',
        mk_visit (named ''Paris'') ''1'' ''T1'', mk_visit (named ''Lyon'') ''1'' ''T2'']))
     [mk_fav ''50980'' ''Test'' ''C02000'' ''1'' ''Paris'',
      mk_fav ''50980'' ''Test'' ''C02000'' ''1'' ''Lyon'']) = None \<and>
   filterE (matches ascii_lib (mk_fav ''50980'' ''Test'' ''C02000'' ''1'' ''Lyon''))
     [seen ''Paris'' ''1'' ''T3'', seen ''Paris'' ''1'' ''T1'', seen ''Lyon'' ''1'' ''T2'']
     = Inr [seen ''Lyon'' ''1'' ''T2''] \<and>
   filter (\<lambda>kv. fst kv = ''50980_C02000_1'')
     (results (DepartureWorker_run ascii_lib
        (net_const (siri_body [mk_visit (named ''Paris'') ''1'' ''T3'',
           mk_visit (named ''Paris'') ''1'' ''T1'', mk_visit (named ''Lyon'') ''1'' ''T2'']))
        [mk_fav ''50980'' ''Test'' ''C02000'' ''1'' ''Paris'',
         mk_fav ''50980'' ''Test'' ''C02000'' ''1'' ''Lyon'']))
     = [(''50980_C02000_1'', [seen ''Lyon'' ''1'' ''T2''])]"
proof -
  let ?body = "siri_body [mk_visit (named ''Paris'') ''1'' ''T3'',
        mk_visit (named ''Paris'') ''1'' ''T1'', mk_visit (named ''Lyon'') ''1'' ''T2'']"
  let ?deps = "[seen ''Paris'' ''1'' ''T3'', seen ''Paris'' ''1'' ''T1'', seen ''Lyon'' ''1'' ''T2'']"
  let ?fa = "mk_fav ''50980'' ''Test'' ''C02000'' ''1'' ''Paris''"
  let ?fb = "mk_fav ''50980'' ''Test'' ''C02000'' ''1'' ''Lyon''"
  let ?run = "DepartureWorker_run ascii_lib (net_const ?body) [?fa, ?fb]"
  have p: "parse_departures ascii_lib ?body 0 = Inr ?deps"
    by (simp add: parse_siri_body parse_mk_visit bindE_def)
  have fa: "filterE (matches ascii_lib ?fa) ?deps
      = Inr [seen ''Paris'' ''1'' ''T3'', seen ''Paris'' ''1'' ''T1'']"
    by (simp add: filter_eval)
  have fb: "filterE (matches ascii_lib ?fb) ?deps = Inr [seen ''Lyon'' ''1'' ''T2'']"
    by (simp add: filter_eval)
  have u: "uncaught ?run = None"
    by (simp add: run_eval p fa fb del: filterE.simps)
  have h1: "[?fa, ?fb] = [] @ ?fa # [] @ ?fb # []" by simp
  have h2: "stop_area_id ?fa = stop_area_id ?fb" by (simp add: mk_fav_sel)
  have h3: "line_id ?fa = line_id ?fb" by (simp add: mk_fav_sel)
  have h4: "direction ?fa = direction ?fb" by (simp add: mk_fav_sel)
  have h5: "\<forall>g \<in> set [].
           stop_area_id g @ ''_'' @ line_id g @ ''_'' @ direction g
             \<noteq> stop_area_id ?fb @ ''_'' @ line_id ?fb @ ''_'' @ direction ?fb" by simp
  have h6: "\<forall>g \<in> set [?fa, ?fb].
           stop_area_id g @ ''_'' @ line_id g @ ''_'' @ direction g
             = stop_area_id ?fb @ ''_'' @ line_id ?fb @ ''_'' @ direction ?fb
           \<longrightarrow> stop_area_id g = stop_area_id ?fb \<and> line_id g = line_id ?fb"
    by (simp add: mk_fav_sel)
  have h7: "net_const ?body (Stop_monitoring (''STIF:StopArea:SP:'' @ stop_area_id ?fb @ '':'')
                              (''STIF:Line::'' @ line_id ?fb @ '':'')) = Payload 0 ?body"
    by (simp add: net_const_def)
  from shared_key_last_wins [OF h1 h2 h3 h4 h5 h6 h7 u]
  obtain deps m2 where r: "parse_departures ascii_lib ?body 0 = Inr deps"
    "filterE (matches ascii_lib ?fb) deps = Inr m2"
    "filter (\<lambda>kv. fst kv = stop_area_id ?fa @ ''_'' @ line_id ?fa @ ''_'' @ direction ?fa)
            (results ?run)
       = [(stop_area_id ?fa @ ''_'' @ line_id ?fa @ ''_'' @ direction ?fa,
           take 5 (sort_key expected_iso m2))]" by blast
  from r(1) p have "deps = ?deps" by simp
  with r(2) fb have "m2 = [seen ''Lyon'' ''1'' ''T2'']" by simp
  with r(3) have "filter (\<lambda>kv. fst kv = ''50980_C02000_1'') (results ?run)
     = [(''50980_C02000_1'', [seen ''Lyon'' ''1'' ''T2''])]"
    by (simp add: mk_fav_sel)
  with u fb show ?thesis by blast
qed


end
